theory Spec2Isabelle
  imports Main
begin

section \<open>The plasma object directory\<close>

text \<open>
  A shallow embedding of \<^verbatim>\<open>object_directory.cc\<close> (namespace \<^verbatim>\<open>plasma\<close>): the object
  table entry, the object directory and its operations. The directory's collaborators
  (eviction policy, allocator, external store) are declared in headers that are not part
  of the sources at hand; they are taken as parameters, so every general theorem below
  holds for each implementation of them. Every \<^verbatim>\<open>RAY_CHECK\<close> that fails aborts
  the process; here it is the result \<open>Inl RAY_CHECK_failed\<close>.
\<close>

subsection \<open>Data model\<close>

type_synonym ObjectID = nat

text \<open>A \<^verbatim>\<open>Client*\<close>: the identity of the client record the directory borrows.\<close>

type_synonym Client = nat

datatype ObjectState = PLASMA_CREATED | PLASMA_SEALED | PLASMA_EVICTED

datatype Status = Status_OK | ObjectExists | ObjectStoreFull | OutOfMemory

datatype PlasmaError = PlasmaError_OK | ObjectNonexistent | ObjectNotSealed | ObjectInUse

datatype fatal = RAY_CHECK_failed | Null_dereference | Out_of_fuel

text \<open>
  The value of an integer as an \<^verbatim>\<open>int64_t\<close>: a sum of two sizes is taken in 64 bits,
  two's complement, and wraps around beyond \<open>2^63 - 1\<close>.
\<close>

definition int64 :: "int \<Rightarrow> int" where
  "int64 x = (x + 9223372036854775808) mod 18446744073709551616 - 9223372036854775808"

text \<open>
  \<^verbatim>\<open>struct ObjectTableEntry\<close>. A null \<^verbatim>\<open>pointer\<close> is \<open>None\<close>. The sizes are
  \<^verbatim>\<open>int64_t\<close> values and their sums wrap around; the reference count and the times are
  counted up in steps of one, far from the limits of their types, and are unbounded
  \<open>int\<close> here.
\<close>

record ObjectTableEntry =
  pointer :: "nat option"
  data_size :: int
  metadata_size :: int
  device_num :: int
  fd :: int
  map_size :: int
  offset :: int
  state :: ObjectState
  ref_count :: int
  create_time :: int
  construct_duration :: int

text \<open>
  \<^verbatim>\<open>ObjectInfoT\<close>, the notification record. A default-constructed record has zero
  sizes and \<open>is_deletion = false\<close>.
\<close>

record ObjectInfoT =
  info_object_id :: ObjectID
  info_data_size :: int
  info_metadata_size :: int
  is_deletion :: bool

record PlasmaObject =
  store_fd :: int
  data_offset :: int
  metadata_offset :: int
  object_data_size :: int
  object_metadata_size :: int
  object_device_num :: int
  object_map_size :: int
  initialized :: bool

text \<open>
  The collaborators the directory calls: the eviction policy (state \<open>'p\<close>), the
  allocator (state \<open>'a\<close>) and the external store (state \<open>'x\<close>). Each method takes the
  collaborator's state and returns the new one with its results; an out-parameter
  \<^verbatim>\<open>std::vector<ObjectID>*\<close> is a returned list. A buffer handed to the external store
  is the pair of an entry's pointer and its size.
\<close>

record ('p, 'a, 'x) collaborators =
  ObjectCreated :: "'p \<Rightarrow> ObjectID \<Rightarrow> int \<Rightarrow> Client \<Rightarrow> bool \<Rightarrow> 'p"
  BeginObjectAccess :: "'p \<Rightarrow> ObjectID \<Rightarrow> int \<Rightarrow> 'p"
  EndObjectAccess :: "'p \<Rightarrow> ObjectID \<Rightarrow> int \<Rightarrow> 'p"
  RequireSpace :: "'p \<Rightarrow> int \<Rightarrow> 'p \<times> bool \<times> ObjectID list"
  EnforcePerClientQuota :: "'p \<Rightarrow> Client \<Rightarrow> int \<Rightarrow> bool \<Rightarrow> 'p \<times> bool \<times> ObjectID list"
  ChooseObjectsToEvict :: "'p \<Rightarrow> int \<Rightarrow> 'p \<times> int \<times> ObjectID list"
  RemoveObject :: "'p \<Rightarrow> ObjectID \<Rightarrow> 'p"
  ClientDisconnected :: "'p \<Rightarrow> Client \<Rightarrow> 'p"
  Memalign :: "'a \<Rightarrow> int \<Rightarrow> int \<Rightarrow> 'a \<times> nat option"
  Free :: "'a \<Rightarrow> nat option \<Rightarrow> int \<Rightarrow> 'a"
  GetMallocMapinfo :: "'a \<Rightarrow> nat \<Rightarrow> int \<times> int \<times> int"
  Put :: "'x \<Rightarrow> ObjectID list \<Rightarrow> (nat option \<times> int) list \<Rightarrow> 'x \<times> bool"
  Get :: "'x \<Rightarrow> ObjectID list \<Rightarrow> (nat option \<times> int) list \<Rightarrow> 'x \<times> bool"

text \<open>
  \<^verbatim>\<open>class ObjectDirectory\<close> with what its methods reach: the object table, the deletion
  cache, the eviction policy, the optional external store (\<open>None\<close> is a null
  \<^verbatim>\<open>shared_ptr\<close>), the batches handed to \<^verbatim>\<open>notifications_callback_\<close> so far, the
  allocator, the \<^verbatim>\<open>object_ids\<close> set of every client (a list without order of its
  own: it stands for the iteration order of the hash set), and the clock:
  the \<open>n\<close>-th call of \<^verbatim>\<open>std::time\<close> returns \<open>time_source n\<close>.
\<close>

record ('p, 'a, 'x) ObjectDirectory =
  object_table :: "ObjectID \<rightharpoonup> ObjectTableEntry"
  deletion_cache :: "ObjectID set"
  eviction_policy :: 'p
  external_store :: "'x option"
  notified :: "ObjectInfoT list list"
  allocator :: 'a
  object_ids :: "Client \<Rightarrow> ObjectID list"
  time_source :: "nat \<Rightarrow> int"
  time_calls :: nat

subsection \<open>Object table entries\<close>

text \<open>
  Modelled from the spec: \<^verbatim>\<open>kBlockSize\<close> is declared outside the sources at hand; the
  spec gives an alignment of 64 bytes.
\<close>

definition kBlockSize :: int where
  "kBlockSize = 64"

definition ObjectSize :: "ObjectTableEntry \<Rightarrow> int" where
  "ObjectSize e = int64 (data_size e + metadata_size e)"

definition GetArrowBuffer :: "ObjectTableEntry \<Rightarrow> nat option \<times> int" where
  "GetArrowBuffer e = (pointer e, ObjectSize e)"

text \<open>
  Modelled from the spec: \<^verbatim>\<open>ObjectTableEntry::Reset\<close> is defined outside the sources at
  hand; the spec has it reset pointer, fd, map_size and offset.
\<close>

definition Reset :: "ObjectTableEntry \<Rightarrow> ObjectTableEntry" where
  "Reset e = e\<lparr>pointer := None, fd := - 1, map_size := 0, offset := 0\<rparr>"

text \<open>
  Modelled from the spec: the constructor of \<^verbatim>\<open>ObjectTableEntry\<close> is defined outside the
  sources at hand; a fresh entry has no memory, no reference and
  \<open>construct_duration = -1\<close>.
\<close>

definition new_ObjectTableEntry :: ObjectTableEntry where
  "new_ObjectTableEntry =
     \<lparr>pointer = None, data_size = 0, metadata_size = 0, device_num = 0, fd = - 1,
      map_size = 0, offset = 0, state = PLASMA_CREATED, ref_count = 0, create_time = 0,
      construct_duration = - 1\<rparr>"

definition std_time ::
  "('p, 'a, 'x) ObjectDirectory \<Rightarrow> int \<times> ('p, 'a, 'x) ObjectDirectory" where
  "std_time s = (time_source s (time_calls s), s\<lparr>time_calls := Suc (time_calls s)\<rparr>)"

text \<open>
  \<^verbatim>\<open>ObjectTableEntry::FreeObject\<close>, built without \<^verbatim>\<open>PLASMA_CUDA\<close>: the block of a host
  object goes back to the allocator, the entry is reset and its state is
  \<^verbatim>\<open>PLASMA_EVICTED\<close>. The entry itself stays where it is.
\<close>

definition FreeObject ::
  "('p, 'a, 'x) collaborators \<Rightarrow> 'a \<Rightarrow> ObjectTableEntry \<Rightarrow> 'a \<times> ObjectTableEntry" where
  "FreeObject ops al e =
     (let buff_size = ObjectSize e;
          al' = (if device_num e = 0 then Free ops al (pointer e) buff_size else al)
      in (al', (Reset e)\<lparr>state := PLASMA_EVICTED\<rparr>))"

text \<open>
  \<^verbatim>\<open>ObjectTableEntry::AllocateMemory\<close>, built without \<^verbatim>\<open>PLASMA_CUDA\<close>: a device other
  than the host is refused with \<^verbatim>\<open>OutOfMemory\<close> and the entry is left as it was.
\<close>

definition Entry_AllocateMemory ::
  "('p, 'a, 'x) collaborators \<Rightarrow> ('p, 'a, 'x) ObjectDirectory \<Rightarrow> ObjectTableEntry \<Rightarrow> int \<Rightarrow> int
     \<Rightarrow> fatal + (('p, 'a, 'x) ObjectDirectory \<times> ObjectTableEntry \<times> Status)" where
  "Entry_AllocateMemory ops s e device_id sz =
     (if device_id = 0 then
        (case Memalign ops (allocator s) kBlockSize sz of
           (al, None) \<Rightarrow> Inr (s\<lparr>allocator := al\<rparr>, Reset e, ObjectStoreFull)
         | (al, Some address) \<Rightarrow>
             (case GetMallocMapinfo ops al address of
                (fd', map_size', offset') \<Rightarrow>
                  if fd' = - 1 then Inl RAY_CHECK_failed
                  else
                    (case std_time (s\<lparr>allocator := al\<rparr>) of
                       (now, s') \<Rightarrow>
                         Inr (s',
                              e\<lparr>pointer := Some address, fd := fd', map_size := map_size',
                                offset := offset', state := PLASMA_CREATED,
                                device_num := device_id, create_time := now,
                                construct_duration := - 1\<rparr>,
                              Status_OK))))
      else Inr (s, e, OutOfMemory))"

definition PlasmaObject_init :: "ObjectTableEntry \<Rightarrow> PlasmaObject" where
  "PlasmaObject_init entry =
     \<lparr>store_fd = fd entry,
      data_offset = offset entry,
      metadata_offset = offset entry + data_size entry,
      object_data_size = data_size entry,
      object_metadata_size = metadata_size entry,
      object_device_num = device_num entry,
      object_map_size = map_size entry,
      initialized = True\<rparr>"

subsection \<open>The directory: helpers\<close>

definition notifications_callback ::
  "('p, 'a, 'x) ObjectDirectory \<Rightarrow> ObjectInfoT list \<Rightarrow> ('p, 'a, 'x) ObjectDirectory" where
  "notifications_callback s infos = s\<lparr>notified := notified s @ [infos]\<rparr>"

definition deletion_notification :: "ObjectID \<Rightarrow> ObjectInfoT" where
  "deletion_notification object_id =
     \<lparr>info_object_id = object_id, info_data_size = 0, info_metadata_size = 0,
      is_deletion = True\<rparr>"

text \<open>
  Modelled from the spec: \<^verbatim>\<open>ObjectDirectory::EraseObject\<close> is defined outside the sources
  at hand; the spec has it free the entry's memory and remove the entry from the table.
  It takes the id alone, so it reaches no client's set.
\<close>

definition EraseObject ::
  "('p, 'a, 'x) collaborators \<Rightarrow> ('p, 'a, 'x) ObjectDirectory \<Rightarrow> ObjectID
     \<Rightarrow> ('p, 'a, 'x) ObjectDirectory" where
  "EraseObject ops s object_id =
     (case object_table s object_id of
        None \<Rightarrow> s
      | Some entry \<Rightarrow>
          s\<lparr>allocator := fst (FreeObject ops (allocator s) entry),
            object_table := (object_table s)(object_id := None)\<rparr>)"

subsection \<open>EvictObjectsInternal\<close>

text \<open>
  The first loop of \<^verbatim>\<open>EvictObjectsInternal\<close>. The accumulator holds
  \<^verbatim>\<open>evicted_objects_entries\<close> (an entry pointer is the id of the entry it points to in
  the table), \<^verbatim>\<open>evicted_object_data\<close> and \<^verbatim>\<open>infos\<close>.
\<close>

fun evict_loop ::
  "('p, 'a, 'x) collaborators \<Rightarrow> ('p, 'a, 'x) ObjectDirectory \<Rightarrow> ObjectID list
     \<Rightarrow> ObjectID list \<times> (nat option \<times> int) list \<times> ObjectInfoT list
     \<Rightarrow> fatal + (('p, 'a, 'x) ObjectDirectory
                 \<times> ObjectID list \<times> (nat option \<times> int) list \<times> ObjectInfoT list)" where
  "evict_loop ops s [] acc = Inr (s, acc)"
| "evict_loop ops s (object_id # rest) (entries, bufs, infos) =
     (case object_table s object_id of
        None \<Rightarrow> Inl RAY_CHECK_failed
      | Some entry \<Rightarrow>
          if state entry \<noteq> PLASMA_SEALED then Inl RAY_CHECK_failed
          else if ref_count entry \<noteq> 0 then Inl RAY_CHECK_failed
          else
            (case external_store s of
               Some x \<Rightarrow>
                 evict_loop ops s rest
                   (entries @ [object_id], bufs @ [GetArrowBuffer entry], infos)
             | None \<Rightarrow>
                 (case FreeObject ops (allocator s) entry of
                    (al, entry') \<Rightarrow>
                      evict_loop ops
                        (s\<lparr>allocator := al,
                           object_table := (object_table s)(object_id \<mapsto> entry')\<rparr>)
                        rest
                        (entries, bufs, infos @ [deletion_notification object_id]))))"

definition free_entry ::
  "('p, 'a, 'x) collaborators \<Rightarrow> ObjectID \<Rightarrow> ('p, 'a, 'x) ObjectDirectory
     \<Rightarrow> ('p, 'a, 'x) ObjectDirectory" where
  "free_entry ops object_id s =
     (case object_table s object_id of
        None \<Rightarrow> s
      | Some entry \<Rightarrow>
          (case FreeObject ops (allocator s) entry of
             (al, entry') \<Rightarrow>
               s\<lparr>allocator := al, object_table := (object_table s)(object_id \<mapsto> entry')\<rparr>))"

definition EvictObjectsInternal ::
  "('p, 'a, 'x) collaborators \<Rightarrow> ('p, 'a, 'x) ObjectDirectory \<Rightarrow> ObjectID list
     \<Rightarrow> fatal + ('p, 'a, 'x) ObjectDirectory" where
  "EvictObjectsInternal ops s object_ids' =
     (if object_ids' = [] then Inr s
      else
        (case evict_loop ops s object_ids' ([], [], []) of
           Inl f \<Rightarrow> Inl f
         | Inr (s1, entries, bufs, infos) \<Rightarrow>
             (case external_store s1 of
                Some x \<Rightarrow>
                  (case Put ops x object_ids' bufs of
                     (x', ok) \<Rightarrow>
                       if \<not> ok then Inl RAY_CHECK_failed
                       else Inr (fold (free_entry ops) entries (s1\<lparr>external_store := Some x'\<rparr>)))
              | None \<Rightarrow> Inr (notifications_callback s1 infos))))"

subsection \<open>Reference counting\<close>

text \<open>
  \<^verbatim>\<open>AddToClientObjectIds\<close>. The entry is passed and returned by value; the caller puts it
  where the pointer it passed points to.
\<close>

definition AddToClientObjectIds ::
  "('p, 'a, 'x) collaborators \<Rightarrow> ('p, 'a, 'x) ObjectDirectory \<Rightarrow> ObjectID \<Rightarrow> ObjectTableEntry
     \<Rightarrow> Client \<Rightarrow> ('p, 'a, 'x) ObjectDirectory \<times> ObjectTableEntry" where
  "AddToClientObjectIds ops s object_id entry client =
     (if object_id \<in> set (object_ids s client) then (s, entry)
      else
        (let p = (if ref_count entry = 0
                  then BeginObjectAccess ops (eviction_policy s) object_id (ObjectSize entry)
                  else eviction_policy s)
         in (s\<lparr>eviction_policy := p,
               object_ids := (object_ids s)(client := object_ids s client @ [object_id])\<rparr>,
             entry\<lparr>ref_count := ref_count entry + 1\<rparr>)))"

text \<open>
  \<^verbatim>\<open>RemoveFromClientObjectIds\<close>. Both callers pass the pointer to the entry that the
  table holds under \<open>object_id\<close>, and \<^verbatim>\<open>EvictObjectsInternal\<close> finds the same entry there,
  so the entry is read from and written to the table.
\<close>

definition RemoveFromClientObjectIds ::
  "('p, 'a, 'x) collaborators \<Rightarrow> ('p, 'a, 'x) ObjectDirectory \<Rightarrow> ObjectID \<Rightarrow> Client
     \<Rightarrow> fatal + (('p, 'a, 'x) ObjectDirectory \<times> int)" where
  "RemoveFromClientObjectIds ops s object_id client =
     (if object_id \<in> set (object_ids s client) then
        (case object_table s object_id of
           None \<Rightarrow> Inl Null_dereference
         | Some entry \<Rightarrow>
             (let entry' = entry\<lparr>ref_count := ref_count entry - 1\<rparr>;
                  s1 = s\<lparr>object_ids :=
                           (object_ids s)(client := removeAll object_id (object_ids s client)),
                         object_table := (object_table s)(object_id \<mapsto> entry')\<rparr>
              in if ref_count entry' = 0 then
                   (if object_id \<notin> deletion_cache s1 then
                      Inr (s1\<lparr>eviction_policy :=
                                 EndObjectAccess ops (eviction_policy s1) object_id
                                   (ObjectSize entry')\<rparr>, 1)
                    else
                      (case EvictObjectsInternal ops
                              (s1\<lparr>deletion_cache := deletion_cache s1 - {object_id}\<rparr>)
                              [object_id] of
                         Inl f \<Rightarrow> Inl f
                       | Inr s2 \<Rightarrow> Inr (s2, 1)))
                 else Inr (s1, 1)))
      else Inr (s, 0))"

subsection \<open>AllocateMemory\<close>

text \<open>
  The \<^verbatim>\<open>while (true)\<close> loop of \<^verbatim>\<open>ObjectDirectory::AllocateMemory\<close>. It runs for as long as
  the allocation fails and the eviction policy reports success, which an eviction
  policy can do forever; the fuel bounds the number of rounds and the loop that uses it
  up ends in \<open>Inl Out_of_fuel\<close>.
\<close>

fun AllocateMemory_loop ::
  "('p, 'a, 'x) collaborators \<Rightarrow> nat \<Rightarrow> ('p, 'a, 'x) ObjectDirectory \<Rightarrow> ObjectID
     \<Rightarrow> ObjectTableEntry \<Rightarrow> int \<Rightarrow> bool \<Rightarrow> Client \<Rightarrow> bool \<Rightarrow> int
     \<Rightarrow> fatal + (('p, 'a, 'x) ObjectDirectory \<times> ObjectTableEntry \<times> Status)" where
  "AllocateMemory_loop ops 0 s object_id entry sz evict_if_full client is_create device_num' =
     Inl Out_of_fuel"
| "AllocateMemory_loop ops (Suc fuel) s object_id entry sz evict_if_full client is_create
     device_num' =
     (case Entry_AllocateMemory ops s entry device_num' sz of
        Inl f \<Rightarrow> Inl f
      | Inr (s1, entry1, st) \<Rightarrow>
          if st = Status_OK then
            (case AddToClientObjectIds ops
                    (s1\<lparr>eviction_policy :=
                          ObjectCreated ops (eviction_policy s1) object_id sz client is_create\<rparr>)
                    object_id entry1 client of
               (s2, entry2) \<Rightarrow> Inr (s2, entry2, st))
          else if \<not> evict_if_full then Inr (s1, entry1, st)
          else
            (case RequireSpace ops (eviction_policy s1) sz of
               (p, success, objects_to_evict) \<Rightarrow>
                 (case EvictObjectsInternal ops (s1\<lparr>eviction_policy := p\<rparr>) objects_to_evict of
                    Inl f \<Rightarrow> Inl f
                  | Inr s2 \<Rightarrow>
                      if \<not> success then Inr (s2, entry1, OutOfMemory)
                      else AllocateMemory_loop ops fuel s2 object_id entry1 sz evict_if_full
                             client is_create device_num')))"

text \<open>
  \<^verbatim>\<open>ObjectDirectory::AllocateMemory\<close>. The entry is passed and returned by value. When the
  entry is one of the table (as in \<^verbatim>\<open>GetObjects\<close>), the table keeps the entry's old value
  during the call; the only reader of the table in between is \<^verbatim>\<open>EvictObjectsInternal\<close>,
  which reads the state and the reference count of the entries it is asked to evict, and
  neither the failed allocation nor \<open>Reset\<close> changes the state of the entry.
\<close>

definition AllocateMemory ::
  "('p, 'a, 'x) collaborators \<Rightarrow> nat \<Rightarrow> ('p, 'a, 'x) ObjectDirectory \<Rightarrow> ObjectID
     \<Rightarrow> ObjectTableEntry \<Rightarrow> int \<Rightarrow> bool \<Rightarrow> Client \<Rightarrow> bool \<Rightarrow> int
     \<Rightarrow> fatal + (('p, 'a, 'x) ObjectDirectory \<times> ObjectTableEntry \<times> Status)" where
  "AllocateMemory ops fuel s object_id entry sz evict_if_full client is_create device_num' =
     (if pointer entry \<noteq> None then Inl RAY_CHECK_failed
      else if device_num' \<noteq> 0 then Entry_AllocateMemory ops s entry device_num' sz
      else if evict_if_full then
        (case EnforcePerClientQuota ops (eviction_policy s) client sz is_create of
           (p, quota_ok, client_objects_to_evict) \<Rightarrow>
             if \<not> quota_ok then Inr (s\<lparr>eviction_policy := p\<rparr>, entry, OutOfMemory)
             else
               (case EvictObjectsInternal ops (s\<lparr>eviction_policy := p\<rparr>)
                       client_objects_to_evict of
                  Inl f \<Rightarrow> Inl f
                | Inr s1 \<Rightarrow>
                    AllocateMemory_loop ops fuel s1 object_id entry sz evict_if_full client
                      is_create device_num'))
      else AllocateMemory_loop ops fuel s object_id entry sz evict_if_full client is_create
             device_num')"

subsection \<open>Creating and sealing\<close>

definition CreateObjectInternal ::
  "('p, 'a, 'x) collaborators \<Rightarrow> nat \<Rightarrow> ('p, 'a, 'x) ObjectDirectory \<Rightarrow> ObjectID \<Rightarrow> bool
     \<Rightarrow> int \<Rightarrow> int \<Rightarrow> int \<Rightarrow> Client \<Rightarrow> fatal + (('p, 'a, 'x) ObjectDirectory \<times> Status)" where
  "CreateObjectInternal ops fuel s object_id evict_if_full data_size' metadata_size' device_num'
     client =
     (if object_table s object_id \<noteq> None then Inr (s, ObjectExists)
      else
        (let total_size = int64 (data_size' + metadata_size')
         in if \<not> total_size > 0 then Inl RAY_CHECK_failed
            else
              (case AllocateMemory ops fuel s object_id new_ObjectTableEntry total_size
                      evict_if_full client True device_num' of
                 Inl f \<Rightarrow> Inl f
               | Inr (s1, entry, st) \<Rightarrow>
                   if st \<noteq> Status_OK then Inr (s1, OutOfMemory)
                   else
                     Inr (s1\<lparr>object_table :=
                               (object_table s1)(object_id \<mapsto>
                                  entry\<lparr>data_size := data_size',
                                        metadata_size := metadata_size'\<rparr>)\<rparr>,
                          Status_OK))))"

fun seal_loop ::
  "('p, 'a, 'x) ObjectDirectory \<Rightarrow> ObjectID list \<Rightarrow> ObjectInfoT list
     \<Rightarrow> fatal + (('p, 'a, 'x) ObjectDirectory \<times> ObjectInfoT list)" where
  "seal_loop s [] infos = Inr (s, infos)"
| "seal_loop s (object_id # rest) infos =
     (case object_table s object_id of
        None \<Rightarrow> Inl RAY_CHECK_failed
      | Some entry \<Rightarrow>
          if state entry \<noteq> PLASMA_CREATED then Inl RAY_CHECK_failed
          else
            (case std_time s of
               (now, s1) \<Rightarrow>
                 (let entry' = entry\<lparr>state := PLASMA_SEALED,
                                     construct_duration := now - create_time entry\<rparr>
                  in seal_loop
                       (s1\<lparr>object_table := (object_table s1)(object_id \<mapsto> entry')\<rparr>)
                       rest
                       (infos @ [\<lparr>info_object_id = object_id,
                                  info_data_size = data_size entry',
                                  info_metadata_size = metadata_size entry',
                                  is_deletion = False\<rparr>]))))"

definition SealObjectsInternal ::
  "('p, 'a, 'x) ObjectDirectory \<Rightarrow> ObjectID list \<Rightarrow> fatal + ('p, 'a, 'x) ObjectDirectory" where
  "SealObjectsInternal s object_ids' =
     (case seal_loop s object_ids' [] of
        Inl f \<Rightarrow> Inl f
      | Inr (s1, infos) \<Rightarrow> Inr (notifications_callback s1 infos))"

definition CreateObject ::
  "('p, 'a, 'x) collaborators \<Rightarrow> nat \<Rightarrow> ('p, 'a, 'x) ObjectDirectory \<Rightarrow> ObjectID \<Rightarrow> bool
     \<Rightarrow> int \<Rightarrow> int \<Rightarrow> int \<Rightarrow> Client
     \<Rightarrow> fatal + (('p, 'a, 'x) ObjectDirectory \<times> Status \<times> PlasmaObject option)" where
  "CreateObject ops fuel s object_id evict_if_full data_size' metadata_size' device_num' client =
     (case CreateObjectInternal ops fuel s object_id evict_if_full data_size' metadata_size'
             device_num' client of
        Inl f \<Rightarrow> Inl f
      | Inr (s1, st) \<Rightarrow>
          if st \<noteq> Status_OK then Inr (s1, st, None)
          else
            (case object_table s1 object_id of
               None \<Rightarrow> Inl Null_dereference
             | Some entry \<Rightarrow> Inr (s1, Status_OK, Some (PlasmaObject_init entry))))"

text \<open>
  \<^verbatim>\<open>CreateAndSealObject\<close>. The bytes of \<open>data\<close> and \<open>metadata\<close> are copied into the
  object's memory, which the directory does not read; only their lengths matter here.
\<close>

definition CreateAndSealObject ::
  "('p, 'a, 'x) collaborators \<Rightarrow> nat \<Rightarrow> ('p, 'a, 'x) ObjectDirectory \<Rightarrow> ObjectID \<Rightarrow> bool
     \<Rightarrow> string \<Rightarrow> string \<Rightarrow> int \<Rightarrow> Client
     \<Rightarrow> fatal + (('p, 'a, 'x) ObjectDirectory \<times> Status \<times> PlasmaObject option)" where
  "CreateAndSealObject ops fuel s object_id evict_if_full data metadata device_num' client =
     (if device_num' \<noteq> 0 then Inl RAY_CHECK_failed
      else
        (case CreateObjectInternal ops fuel s object_id evict_if_full (int (length data))
                (int (length metadata)) device_num' client of
           Inl f \<Rightarrow> Inl f
         | Inr (s1, st) \<Rightarrow>
             if st \<noteq> Status_OK then Inr (s1, st, None)
             else
               (case object_table s1 object_id of
                  None \<Rightarrow> Inl Null_dereference
                | Some entry \<Rightarrow>
                    (case SealObjectsInternal s1 [object_id] of
                       Inl f \<Rightarrow> Inl f
                     | Inr s2 \<Rightarrow>
                         (case RemoveFromClientObjectIds ops s2 object_id client of
                            Inl f \<Rightarrow> Inl f
                          | Inr (s3, removed) \<Rightarrow>
                              if removed \<noteq> 1 then Inl RAY_CHECK_failed
                              else Inr (s3, Status_OK, Some (PlasmaObject_init entry)))))))"

subsection \<open>Public operations\<close>

definition EvictObjects ::
  "('p, 'a, 'x) collaborators \<Rightarrow> ('p, 'a, 'x) ObjectDirectory \<Rightarrow> int
     \<Rightarrow> fatal + (('p, 'a, 'x) ObjectDirectory \<times> int)" where
  "EvictObjects ops s num_bytes =
     (case ChooseObjectsToEvict ops (eviction_policy s) num_bytes of
        (p, num_bytes_evicted, objects_to_evict) \<Rightarrow>
          (case EvictObjectsInternal ops (s\<lparr>eviction_policy := p\<rparr>) objects_to_evict of
             Inl f \<Rightarrow> Inl f
           | Inr s1 \<Rightarrow> Inr (s1, num_bytes_evicted)))"

definition DeleteObject ::
  "('p, 'a, 'x) collaborators \<Rightarrow> ('p, 'a, 'x) ObjectDirectory \<Rightarrow> ObjectID
     \<Rightarrow> ('p, 'a, 'x) ObjectDirectory \<times> PlasmaError" where
  "DeleteObject ops s object_id =
     (case object_table s object_id of
        None \<Rightarrow> (s, ObjectNonexistent)
      | Some entry \<Rightarrow>
          if state entry \<noteq> PLASMA_SEALED then
            (s\<lparr>deletion_cache := insert object_id (deletion_cache s)\<rparr>, ObjectNotSealed)
          else if ref_count entry \<noteq> 0 then
            (s\<lparr>deletion_cache := insert object_id (deletion_cache s)\<rparr>, ObjectInUse)
          else
            (notifications_callback
               (EraseObject ops
                  (s\<lparr>eviction_policy := RemoveObject ops (eviction_policy s) object_id\<rparr>)
                  object_id)
               [deletion_notification object_id],
             PlasmaError_OK))"

definition AbortObject ::
  "('p, 'a, 'x) collaborators \<Rightarrow> ('p, 'a, 'x) ObjectDirectory \<Rightarrow> ObjectID \<Rightarrow> Client
     \<Rightarrow> fatal + (('p, 'a, 'x) ObjectDirectory \<times> int)" where
  "AbortObject ops s object_id client =
     (case object_table s object_id of
        None \<Rightarrow> Inl RAY_CHECK_failed
      | Some entry \<Rightarrow>
          if state entry \<noteq> PLASMA_SEALED then Inl RAY_CHECK_failed
          else if object_id \<notin> set (object_ids s client) then Inr (s, 0)
          else
            (let s1 = EraseObject ops s object_id
             in Inr (s1\<lparr>object_ids :=
                          (object_ids s1)(client := removeAll object_id (object_ids s1 client))\<rparr>,
                     1)))"

text \<open>
  The first loop of \<^verbatim>\<open>DisconnectClient\<close>: \<open>sealed_objects\<close> holds the keys of the map of
  that name, in the order they were entered.
\<close>

fun disconnect_loop ::
  "('p, 'a, 'x) collaborators \<Rightarrow> ('p, 'a, 'x) ObjectDirectory \<Rightarrow> ObjectID list \<Rightarrow> ObjectID list
     \<Rightarrow> ('p, 'a, 'x) ObjectDirectory \<times> ObjectID list" where
  "disconnect_loop ops s [] sealed_objects = (s, sealed_objects)"
| "disconnect_loop ops s (object_id # rest) sealed_objects =
     (case object_table s object_id of
        None \<Rightarrow> disconnect_loop ops s rest sealed_objects
      | Some entry \<Rightarrow>
          if state entry = PLASMA_SEALED then
            disconnect_loop ops s rest
              (if object_id \<in> set sealed_objects then sealed_objects
               else sealed_objects @ [object_id])
          else disconnect_loop ops (EraseObject ops s object_id) rest sealed_objects)"

fun release_loop ::
  "('p, 'a, 'x) collaborators \<Rightarrow> Client \<Rightarrow> ('p, 'a, 'x) ObjectDirectory \<Rightarrow> ObjectID list
     \<Rightarrow> fatal + ('p, 'a, 'x) ObjectDirectory" where
  "release_loop ops client s [] = Inr s"
| "release_loop ops client s (object_id # rest) =
     (case RemoveFromClientObjectIds ops s object_id client of
        Inl f \<Rightarrow> Inl f
      | Inr (s1, removed) \<Rightarrow> release_loop ops client s1 rest)"

definition DisconnectClient ::
  "('p, 'a, 'x) collaborators \<Rightarrow> ('p, 'a, 'x) ObjectDirectory \<Rightarrow> Client
     \<Rightarrow> fatal + ('p, 'a, 'x) ObjectDirectory" where
  "DisconnectClient ops s client =
     (let s0 = s\<lparr>eviction_policy := ClientDisconnected ops (eviction_policy s) client\<rparr>
      in case disconnect_loop ops s0 (object_ids s0 client) [] of
           (s1, sealed_objects) \<Rightarrow> release_loop ops client s1 sealed_objects)"

definition MarkObjectAsReconstructed ::
  "('p, 'a, 'x) ObjectDirectory \<Rightarrow> ObjectID \<Rightarrow> fatal + PlasmaObject" where
  "MarkObjectAsReconstructed s object_id =
     (case object_table s object_id of
        None \<Rightarrow> Inl RAY_CHECK_failed
      | Some entry \<Rightarrow> Inr (PlasmaObject_init entry))"

definition RegisterSealedObjectToClient ::
  "('p, 'a, 'x) collaborators \<Rightarrow> ('p, 'a, 'x) ObjectDirectory \<Rightarrow> ObjectID \<Rightarrow> Client
     \<Rightarrow> fatal + (('p, 'a, 'x) ObjectDirectory \<times> PlasmaObject)" where
  "RegisterSealedObjectToClient ops s object_id client =
     (case object_table s object_id of
        None \<Rightarrow> Inl RAY_CHECK_failed
      | Some entry \<Rightarrow>
          (case AddToClientObjectIds ops s object_id entry client of
             (s1, entry1) \<Rightarrow>
               Inr (s1\<lparr>object_table := (object_table s1)(object_id \<mapsto> entry1)\<rparr>,
                    PlasmaObject_init entry)))"

subsection \<open>GetObjects\<close>

text \<open>
  The loop of \<^verbatim>\<open>GetObjects\<close> over the requested ids. The accumulator holds
  \<^verbatim>\<open>sealed_objects\<close>, \<^verbatim>\<open>evicted_ids\<close> and \<^verbatim>\<open>nonexistent_objects\<close>; the three output
  vectors are empty when the call starts.
\<close>

fun get_loop ::
  "('p, 'a, 'x) collaborators \<Rightarrow> nat \<Rightarrow> Client \<Rightarrow> ('p, 'a, 'x) ObjectDirectory \<Rightarrow> ObjectID list
     \<Rightarrow> ObjectID list \<times> ObjectID list \<times> ObjectID list
     \<Rightarrow> fatal + (('p, 'a, 'x) ObjectDirectory \<times> ObjectID list \<times> ObjectID list \<times> ObjectID list)"
  where
  "get_loop ops fuel client s [] acc = Inr (s, acc)"
| "get_loop ops fuel client s (object_id # rest) (sealed_objects, evicted_ids, nonexistent_objects) =
     (case object_table s object_id of
        None \<Rightarrow>
          get_loop ops fuel client s rest
            (sealed_objects, evicted_ids, nonexistent_objects @ [object_id])
      | Some entry \<Rightarrow>
          (case state entry of
             PLASMA_SEALED \<Rightarrow>
               get_loop ops fuel client s rest
                 (sealed_objects @ [object_id], evicted_ids, nonexistent_objects)
           | PLASMA_EVICTED \<Rightarrow>
               (case AllocateMemory ops fuel s object_id entry (ObjectSize entry) True client
                       False (device_num entry) of
                  Inl f \<Rightarrow> Inl f
                | Inr (s1, entry1, status) \<Rightarrow>
                    if status = Status_OK then
                      get_loop ops fuel client
                        (s1\<lparr>object_table := (object_table s1)(object_id \<mapsto> entry1)\<rparr>)
                        rest
                        (sealed_objects, evicted_ids @ [object_id], nonexistent_objects)
                    else
                      get_loop ops fuel client
                        (s1\<lparr>object_table :=
                              (object_table s1)(object_id \<mapsto>
                                 entry1\<lparr>state := PLASMA_EVICTED\<rparr>)\<rparr>)
                        rest
                        (sealed_objects, evicted_ids, nonexistent_objects))
           | PLASMA_CREATED \<Rightarrow>
               get_loop ops fuel client s rest
                 (sealed_objects, evicted_ids, nonexistent_objects @ [object_id])))"

definition mark_sealed ::
  "ObjectID \<Rightarrow> ('p, 'a, 'x) ObjectDirectory \<Rightarrow> ('p, 'a, 'x) ObjectDirectory" where
  "mark_sealed object_id s =
     (case object_table s object_id of
        None \<Rightarrow> s
      | Some entry \<Rightarrow>
          (case std_time s of
             (now, s1) \<Rightarrow>
               s1\<lparr>object_table :=
                    (object_table s1)(object_id \<mapsto>
                       entry\<lparr>state := PLASMA_SEALED,
                             construct_duration := now - create_time entry\<rparr>)\<rparr>))"

definition mark_evicted ::
  "ObjectID \<Rightarrow> ('p, 'a, 'x) ObjectDirectory \<Rightarrow> ('p, 'a, 'x) ObjectDirectory" where
  "mark_evicted object_id s =
     (case object_table s object_id of
        None \<Rightarrow> s
      | Some entry \<Rightarrow>
          s\<lparr>object_table := (object_table s)(object_id \<mapsto> entry\<lparr>state := PLASMA_EVICTED\<rparr>)\<rparr>)"

definition buffers_of ::
  "('p, 'a, 'x) ObjectDirectory \<Rightarrow> ObjectID list \<Rightarrow> (nat option \<times> int) list" where
  "buffers_of s entries =
     List.map_filter (\<lambda>i. map_option GetArrowBuffer (object_table s i)) entries"

text \<open>
  \<^verbatim>\<open>GetObjects\<close>. The local vector \<^verbatim>\<open>entries\<close> is declared empty and nothing is ever
  pushed to it, so each of the three loops over it runs over the empty list; the call of
  \<^verbatim>\<open>external_store_->Get\<close> takes all the requested ids. The result is the directory with
  \<open>(sealed_objects, reconstructed_objects, nonexistent_objects)\<close>.
\<close>

definition GetObjects ::
  "('p, 'a, 'x) collaborators \<Rightarrow> nat \<Rightarrow> ('p, 'a, 'x) ObjectDirectory \<Rightarrow> ObjectID list \<Rightarrow> Client
     \<Rightarrow> fatal + (('p, 'a, 'x) ObjectDirectory \<times> ObjectID list \<times> ObjectID list \<times> ObjectID list)"
  where
  "GetObjects ops fuel s object_ids' client =
     (let entries = ([] :: ObjectID list)
      in case get_loop ops fuel client s object_ids' ([], [], []) of
           Inl f \<Rightarrow> Inl f
         | Inr (s1, sealed_objects, evicted_ids, nonexistent_objects) \<Rightarrow>
             if evicted_ids \<noteq> [] then
               (case external_store s1 of
                  Some x \<Rightarrow>
                    (case Get ops x object_ids' (buffers_of s1 entries) of
                       (x', ok) \<Rightarrow>
                         if ok then
                           Inr (fold mark_sealed entries (s1\<lparr>external_store := Some x'\<rparr>),
                                sealed_objects, evicted_ids, nonexistent_objects)
                         else
                           Inr (fold mark_evicted entries (s1\<lparr>external_store := Some x'\<rparr>),
                                sealed_objects, [], nonexistent_objects))
                | None \<Rightarrow>
                    Inr (fold mark_evicted entries s1, sealed_objects, [], nonexistent_objects))
             else Inr (s1, sealed_objects, [], nonexistent_objects))"

subsection \<open>Collaborators for the examples\<close>

text \<open>
  Modelled from the spec: the allocator, the eviction policy and the external store are
  implemented outside the sources at hand. These are concrete collaborators on which the
  operations can be run, following the contracts the spec gives: an allocator that hands
  out memory up to its footprint limit and answers a request beyond it with null, an
  eviction policy that keeps the idle objects in LRU order, chooses from the oldest on
  and answers false when all the idle objects together are not enough, and an external
  store that accepts every object and answers every fetch with \<open>get_ok\<close>.
\<close>

definition example_Memalign ::
  "int \<Rightarrow> int \<times> nat \<Rightarrow> int \<Rightarrow> int \<Rightarrow> (int \<times> nat) \<times> nat option" where
  "example_Memalign limit al alignment sz =
     (if fst al + sz \<le> limit then ((fst al + sz, snd al + nat sz), Some (snd al))
      else (al, None))"

definition example_Free :: "int \<times> nat \<Rightarrow> nat option \<Rightarrow> int \<Rightarrow> int \<times> nat" where
  "example_Free al p sz = (case p of None \<Rightarrow> al | Some a \<Rightarrow> (fst al - sz, snd al))"

fun lru_choose ::
  "(ObjectID \<times> int) list \<Rightarrow> int \<Rightarrow> (ObjectID \<times> int) list \<times> int \<times> ObjectID list" where
  "lru_choose [] n = ([], 0, [])"
| "lru_choose ((i, sz) # rest) n =
     (if n \<le> 0 then ((i, sz) # rest, 0, [])
      else (case lru_choose rest (n - sz) of (rest', b, ids) \<Rightarrow> (rest', b + sz, i # ids)))"

definition lru_RequireSpace ::
  "(ObjectID \<times> int) list \<Rightarrow> int \<Rightarrow> (ObjectID \<times> int) list \<times> bool \<times> ObjectID list" where
  "lru_RequireSpace p n =
     (case lru_choose p n of (p', b, ids) \<Rightarrow> (p', n \<le> b \<and> 0 < b, ids))"

definition lru_without :: "(ObjectID \<times> int) list \<Rightarrow> ObjectID \<Rightarrow> (ObjectID \<times> int) list" where
  "lru_without p i = filter (\<lambda>e. fst e \<noteq> i) p"

definition example_ops ::
  "int \<Rightarrow> bool \<Rightarrow> ((ObjectID \<times> int) list, int \<times> nat, ObjectID list) collaborators" where
  "example_ops limit get_ok =
     \<lparr>ObjectCreated = (\<lambda>p i sz c is_create. p),
      BeginObjectAccess = (\<lambda>p i sz. lru_without p i),
      EndObjectAccess = (\<lambda>p i sz. lru_without p i @ [(i, sz)]),
      RequireSpace = lru_RequireSpace,
      EnforcePerClientQuota = (\<lambda>p c sz is_create. (p, True, [])),
      ChooseObjectsToEvict = lru_choose,
      RemoveObject = lru_without,
      ClientDisconnected = (\<lambda>p c. p),
      Memalign = example_Memalign limit,
      Free = example_Free,
      GetMallocMapinfo = (\<lambda>al a. (3, limit, int a)),
      Put = (\<lambda>x ids bufs. (x @ ids, True)),
      Get = (\<lambda>x ids bufs. (x, get_ok))\<rparr>"

definition new_directory ::
  "ObjectID list option \<Rightarrow> ((ObjectID \<times> int) list, int \<times> nat, ObjectID list) ObjectDirectory"
  where
  "new_directory store =
     \<lparr>object_table = Map.empty, deletion_cache = {}, eviction_policy = [],
      external_store = store, notified = [], allocator = (0, 0),
      object_ids = (\<lambda>c. []), time_source = (\<lambda>n. 100 + int n), time_calls = 0\<rparr>"

text \<open>What an operation left behind: whether it returned, the directory and the value.\<close>

definition returns :: "fatal + 'r \<Rightarrow> bool" where
  "returns r = (case r of Inl f \<Rightarrow> False | Inr v \<Rightarrow> True)"

definition directory_after :: "fatal + ('d \<times> 'r) \<Rightarrow> 'd" where
  "directory_after r = fst (projr r)"

definition value_after :: "fatal + ('d \<times> 'r) \<Rightarrow> 'r" where
  "value_after r = snd (projr r)"

subsection \<open>Example directories\<close>

text \<open>
  Client 1 creates and seals object 8 (three bytes of data, two of metadata), which
  leaves it sealed and unreferenced.
\<close>

definition sealed_idle ::
  "ObjectID list option \<Rightarrow> ((ObjectID \<times> int) list, int \<times> nat, ObjectID list) ObjectDirectory"
  where
  "sealed_idle store =
     directory_after
       (CreateAndSealObject (example_ops 256 True) 5 (new_directory store) 8 True ''abc'' ''de'' 0 1)"

text \<open>Then client 2 registers as a user of object 8.\<close>

definition sealed_in_use ::
  "((ObjectID \<times> int) list, int \<times> nat, ObjectID list) ObjectDirectory" where
  "sealed_in_use =
     directory_after (RegisterSealedObjectToClient (example_ops 256 True) (sealed_idle None) 8 2)"

text \<open>With an external store, object 8 is evicted on request for five bytes.\<close>

definition spilled ::
  "((ObjectID \<times> int) list, int \<times> nat, ObjectID list) ObjectDirectory" where
  "spilled = directory_after (EvictObjects (example_ops 256 True) (sealed_idle (Some [])) 5)"


text \<open>Client 1 registers as well, so that clients 1 and 2 both use object 8.\<close>

definition shared ::
  "((ObjectID \<times> int) list, int \<times> nat, ObjectID list) ObjectDirectory" where
  "shared = directory_after (RegisterSealedObjectToClient (example_ops 256 True) sealed_in_use 8 1)"

text \<open>Client 1 aborts object 8.\<close>

definition aborted ::
  "((ObjectID \<times> int) list, int \<times> nat, ObjectID list) ObjectDirectory" where
  "aborted = directory_after (AbortObject (example_ops 256 True) shared 8 1)"

text \<open>Client 2, whose set still holds the id, creates and seals object 8 again.\<close>

definition recreated ::
  "((ObjectID \<times> int) list, int \<times> nat, ObjectID list) ObjectDirectory" where
  "recreated =
     directory_after
       (CreateAndSealObject (example_ops 256 True) 5 aborted 8 True ''abc'' ''de'' 0 2)"

text \<open>Client 1 creates object 8 and does not seal it.\<close>

definition created_unsealed ::
  "((ObjectID \<times> int) list, int \<times> nat, ObjectID list) ObjectDirectory" where
  "created_unsealed =
     directory_after (CreateObject (example_ops 256 True) 5 (new_directory None) 8 True 3 2 0 1)"

text \<open>As \<open>sealed_in_use\<close>, with an external store.\<close>

definition in_use_with_store ::
  "((ObjectID \<times> int) list, int \<times> nat, ObjectID list) ObjectDirectory" where
  "in_use_with_store =
     directory_after
       (RegisterSealedObjectToClient (example_ops 256 True) (sealed_idle (Some [])) 8 2)"

text \<open>
  Object 8 is sealed and used by client 2 when its deletion is requested: the request
  is deferred and the id is in the deletion cache.
\<close>

definition delete_pending ::
  "ObjectID list option \<Rightarrow> ((ObjectID \<times> int) list, int \<times> nat, ObjectID list) ObjectDirectory"
  where
  "delete_pending store =
     fst (DeleteObject (example_ops 256 True)
            (directory_after
               (RegisterSealedObjectToClient (example_ops 256 True) (sealed_idle store) 8 2)) 8)"

text \<open>Client 1 creates objects 8 and 9 and seals neither.\<close>

definition two_created ::
  "((ObjectID \<times> int) list, int \<times> nat, ObjectID list) ObjectDirectory" where
  "two_created =
     directory_after
       (CreateObject (example_ops 256 True) 5
          (directory_after
             (CreateObject (example_ops 256 True) 5 (new_directory None) 8 True 3 2 0 1))
          9 True 4 1 0 1)"

subsection \<open>Predicates of the statements\<close>

text \<open>What \<^verbatim>\<open>FreeObject\<close> leaves of an entry.\<close>

definition freed :: "ObjectTableEntry \<Rightarrow> ObjectTableEntry" where
  "freed e = (Reset e)\<lparr>state := PLASMA_EVICTED\<rparr>"

text \<open>
  A table \<open>t'\<close> comes from \<open>t\<close> by evictions only: every id keeps its entry, or its
  entry was sealed and unreferenced and is now the freed entry.
\<close>

definition evicts ::
  "(ObjectID \<rightharpoonup> ObjectTableEntry) \<Rightarrow> (ObjectID \<rightharpoonup> ObjectTableEntry) \<Rightarrow> bool" where
  "evicts t t' =
     (\<forall>k. t' k = t k \<or>
        (\<exists>e. t k = Some e \<and> state e = PLASMA_SEALED \<and> ref_count e = 0 \<and>
           t' k = Some (freed e)))"


text \<open>What sealing at time \<open>now\<close> makes of an entry, and the notification of a seal.\<close>

definition sealed_entry :: "ObjectTableEntry \<Rightarrow> int \<Rightarrow> ObjectTableEntry" where
  "sealed_entry e now = e\<lparr>state := PLASMA_SEALED, construct_duration := now - create_time e\<rparr>"

definition seal_notification ::
  "(ObjectID \<rightharpoonup> ObjectTableEntry) \<Rightarrow> ObjectID \<Rightarrow> ObjectInfoT" where
  "seal_notification t i =
     \<lparr>info_object_id = i, info_data_size = data_size (the (t i)),
      info_metadata_size = metadata_size (the (t i)), is_deletion = False\<rparr>"

section \<open>Properties\<close>

text \<open>The definitions that running an operation on an example directory unfolds.\<close>

lemmas run_defs =
  int64_def returns_def directory_after_def value_after_def example_ops_def example_Memalign_def
  example_Free_def lru_without_def lru_RequireSpace_def new_directory_def
  new_ObjectTableEntry_def kBlockSize_def ObjectSize_def GetArrowBuffer_def Reset_def
  std_time_def FreeObject_def Entry_AllocateMemory_def PlasmaObject_init_def
  notifications_callback_def deletion_notification_def EraseObject_def free_entry_def
  EvictObjectsInternal_def AddToClientObjectIds_def RemoveFromClientObjectIds_def
  AllocateMemory_def CreateObjectInternal_def SealObjectsInternal_def CreateObject_def
  CreateAndSealObject_def RegisterSealedObjectToClient_def sealed_idle_def
  sealed_in_use_def

subsection \<open>Eviction changes entries, never the set of ids\<close>

lemma snd_FreeObject: "snd (FreeObject ops al e) = freed e"
  by (simp add: FreeObject_def freed_def Let_def)

lemma FreeObject_eq:
  "FreeObject ops al e =
     (if device_num e = 0 then Free ops al (pointer e) (ObjectSize e) else al, freed e)"
  by (simp add: FreeObject_def freed_def Let_def)

lemma freed_simps: "state (freed e) = PLASMA_EVICTED" "pointer (freed e) = None"
  "ref_count (freed e) = ref_count e" "freed (freed e) = freed e"
  by (simp_all add: freed_def Reset_def)

lemma evicts_refl: "evicts t t"
  by (simp add: evicts_def)

lemma evicts_trans:
  assumes "evicts t t'" "evicts t' t''"
  shows "evicts t t''"
  unfolding evicts_def
proof
  fix k
  from assms(1) have a: "t' k = t k \<or>
      (\<exists>e. t k = Some e \<and> state e = PLASMA_SEALED \<and> ref_count e = 0 \<and> t' k = Some (freed e))"
    by (simp add: evicts_def)
  from assms(2) have b: "t'' k = t' k \<or>
      (\<exists>e. t' k = Some e \<and> state e = PLASMA_SEALED \<and> ref_count e = 0 \<and> t'' k = Some (freed e))"
    by (simp add: evicts_def)
  show "t'' k = t k \<or>
      (\<exists>e. t k = Some e \<and> state e = PLASMA_SEALED \<and> ref_count e = 0 \<and> t'' k = Some (freed e))"
  proof (cases "t' k = t k")
    case True
    with b show ?thesis by simp
  next
    case False
    with a obtain e where e: "t k = Some e" "state e = PLASMA_SEALED" "ref_count e = 0"
      "t' k = Some (freed e)" by blast
    with b have "t'' k = Some (freed e)" by (auto simp: freed_simps)
    with e show ?thesis by simp
  qed
qed

lemma evicts_upd:
  "t k = Some e \<Longrightarrow> state e = PLASMA_SEALED \<Longrightarrow> ref_count e = 0 \<Longrightarrow> evicts t (t(k \<mapsto> freed e))"
  by (simp add: evicts_def)

lemma evict_loop_props:
  "evict_loop ops s ids acc = Inr (s', acc') \<Longrightarrow>
     evicts (object_table s) (object_table s') \<and> external_store s' = external_store s \<and>
     (external_store s \<noteq> None \<longrightarrow> s' = s \<and>
        (\<forall>i \<in> set (fst acc'). i \<in> set (fst acc) \<or>
           (\<exists>e. object_table s i = Some e \<and> state e = PLASMA_SEALED \<and> ref_count e = 0)))"
proof (induction ids arbitrary: s acc)
  case Nil
  then show ?case by (auto simp: evicts_refl)
next
  case (Cons object_id rest)
  obtain entries bufs infos where acc: "acc = (entries, bufs, infos)"
    by (cases acc) auto
  from Cons.prems acc obtain entry where e: "object_table s object_id = Some entry"
    "state entry = PLASMA_SEALED" "ref_count entry = 0"
    by (auto split: option.splits if_splits)
  show ?case
  proof (cases "external_store s")
    case None
    let ?al = "if device_num entry = 0
               then Free ops (allocator s) (pointer entry) (ObjectSize entry) else allocator s"
    let ?s1 = "s\<lparr>allocator := ?al,
                 object_table := (object_table s)(object_id \<mapsto> freed entry)\<rparr>"
    from Cons.prems acc e None have r: "evict_loop ops ?s1 rest
        (entries, bufs, infos @ [deletion_notification object_id]) = Inr (s', acc')"
      by (simp add: FreeObject_eq)
    have t1: "object_table ?s1 = (object_table s)(object_id \<mapsto> freed entry)"
      by simp
    have x1: "external_store ?s1 = external_store s"
      by simp
    from Cons.IH [OF r] have "evicts (object_table ?s1) (object_table s')"
      and "external_store s' = external_store ?s1" by blast+
    then have "evicts ((object_table s)(object_id \<mapsto> freed entry)) (object_table s')"
      and "external_store s' = external_store s" unfolding t1 x1 .
    moreover have "evicts (object_table s) ((object_table s)(object_id \<mapsto> freed entry))"
      using e by (rule evicts_upd [of "object_table s" object_id entry])
    ultimately show ?thesis using None by (auto intro: evicts_trans)
  next
    case (Some x)
    from Cons.prems acc e Some have r: "evict_loop ops s rest
        (entries @ [object_id], bufs @ [GetArrowBuffer entry], infos) = Inr (s', acc')"
      by simp
    from Cons.IH [OF r] e Some acc show ?thesis by auto
  qed
qed

lemma fold_free_entry_evicts:
  "evicts t (object_table s) \<Longrightarrow>
   \<forall>i \<in> set ents. \<exists>e. t i = Some e \<and> state e = PLASMA_SEALED \<and> ref_count e = 0 \<Longrightarrow>
   evicts t (object_table (fold (free_entry ops) ents s))"
proof (induction ents arbitrary: s)
  case Nil
  then show ?case by simp
next
  case (Cons i ents)
  from Cons.prems(2) obtain e where e: "t i = Some e" "state e = PLASMA_SEALED" "ref_count e = 0"
    by auto
  from Cons.prems(1) e have "object_table s i = Some e \<or> object_table s i = Some (freed e)"
    by (auto simp: evicts_def dest: spec [of _ i])
  then have u: "object_table (free_entry ops i s) = (object_table s)(i \<mapsto> freed e)"
    by (auto simp: free_entry_def FreeObject_eq freed_simps)
  have "evicts t (object_table (free_entry ops i s))"
    unfolding u evicts_def
  proof
    fix k
    from Cons.prems(1) have "object_table s k = t k \<or>
      (\<exists>e. t k = Some e \<and> state e = PLASMA_SEALED \<and> ref_count e = 0 \<and> object_table s k = Some (freed e))"
      by (simp add: evicts_def)
    with e show "((object_table s)(i \<mapsto> freed e)) k = t k \<or>
      (\<exists>ea. t k = Some ea \<and> state ea = PLASMA_SEALED \<and> ref_count ea = 0 \<and>
         ((object_table s)(i \<mapsto> freed e)) k = Some (freed ea))"
      by auto
  qed
  with Cons.IH Cons.prems(2) show ?case by simp
qed

lemma EvictObjectsInternal_evicts:
  assumes "EvictObjectsInternal ops s ids = Inr s'"
  shows "evicts (object_table s) (object_table s')"
proof (cases "ids = []")
  case True
  with assms show ?thesis by (simp add: EvictObjectsInternal_def evicts_refl)
next
  case False
  with assms obtain s1 ents bufs infos where
    l: "evict_loop ops s ids ([], [], []) = Inr (s1, ents, bufs, infos)"
    by (auto simp: EvictObjectsInternal_def split: sum.splits)
  note p = evict_loop_props [OF l]
  show ?thesis
  proof (cases "external_store s")
    case None
    with assms False l p have "s' = notifications_callback s1 infos"
      by (simp add: EvictObjectsInternal_def)
    with p show ?thesis by (simp add: notifications_callback_def)
  next
    case (Some x)
    with p have s1: "s1 = s" and
      ents: "\<forall>i \<in> set ents. \<exists>e. object_table s i = Some e \<and> state e = PLASMA_SEALED \<and> ref_count e = 0"
      by auto
    from assms False l Some s1 obtain x' where
      "s' = fold (free_entry ops) ents (s\<lparr>external_store := Some x'\<rparr>)"
      by (auto simp: EvictObjectsInternal_def split: prod.splits if_splits)
    then show ?thesis
      using fold_free_entry_evicts [of "object_table s" "s\<lparr>external_store := Some x'\<rparr>" ents ops] ents
      by (simp add: evicts_refl)
  qed
qed


text \<open>
  Claim C1, on the code. Without an external store \<^verbatim>\<open>EvictObjectsInternal\<close> frees the
  memory of the entry and emits one deletion notification for the id, but the entry is
  not removed: the id stays in the object table with state \<^verbatim>\<open>PLASMA_EVICTED\<close>.
\<close>

theorem evict_without_store_keeps_entry:
  "external_store (sealed_idle None) = None \<and>
   object_table (sealed_idle None) 8 =
     Some \<lparr>pointer = Some 0, data_size = 3, metadata_size = 2, device_num = 0, fd = 3,
           map_size = 256, offset = 0, state = PLASMA_SEALED, ref_count = 0,
           create_time = 100, construct_duration = 1\<rparr> \<and>
   returns (EvictObjectsInternal (example_ops 256 True) (sealed_idle None) [8]) \<and>
   object_table (projr (EvictObjectsInternal (example_ops 256 True) (sealed_idle None) [8])) 8 =
     Some \<lparr>pointer = None, data_size = 3, metadata_size = 2, device_num = 0, fd = - 1,
           map_size = 0, offset = 0, state = PLASMA_EVICTED, ref_count = 0,
           create_time = 100, construct_duration = 1\<rparr> \<and>
   allocator (sealed_idle None) = (5, 5) \<and>
   allocator (projr (EvictObjectsInternal (example_ops 256 True) (sealed_idle None) [8])) = (0, 5) \<and>
   notified (projr (EvictObjectsInternal (example_ops 256 True) (sealed_idle None) [8])) =
     notified (sealed_idle None) @ [[deletion_notification 8]]"
  by (simp add: run_defs numeral_eq_Suc)

subsection \<open>A failed allocation\<close>

lemma Entry_AllocateMemory_table:
  "Entry_AllocateMemory ops s e d sz = Inr (s1, e1, st) \<Longrightarrow> object_table s1 = object_table s"
  by (auto simp: Entry_AllocateMemory_def std_time_def split: if_splits prod.splits option.splits)

lemma Entry_AllocateMemory_status:
  "Entry_AllocateMemory ops s e d sz = Inr (s1, e1, st) \<Longrightarrow>
     st = Status_OK \<or> st = ObjectStoreFull \<or> st = OutOfMemory"
  by (auto simp: Entry_AllocateMemory_def std_time_def split: if_splits prod.splits option.splits)

lemma AddToClientObjectIds_table:
  "AddToClientObjectIds ops s i e c = (s1, e1) \<Longrightarrow> object_table s1 = object_table s"
  by (auto simp: AddToClientObjectIds_def Let_def split: if_splits)

lemma AllocateMemory_loop_evicts:
  "AllocateMemory_loop ops fuel s i e sz evict_if_full c is_create d = Inr (s', e', st) \<Longrightarrow>
     evicts (object_table s) (object_table s')"
proof (induction fuel arbitrary: s e)
  case 0
  then show ?case by simp
next
  case (Suc fuel)
  from Suc.prems obtain s1 e1 st1 where
    a: "Entry_AllocateMemory ops s e d sz = Inr (s1, e1, st1)"
    by (auto split: sum.splits)
  note t1 = Entry_AllocateMemory_table [OF a]
  show ?case
  proof (cases "st1 = Status_OK")
    case True
    with Suc.prems a have "object_table s' = object_table s1"
      by (auto split: prod.splits dest: AddToClientObjectIds_table)
    with t1 show ?thesis by (simp add: evicts_refl)
  next
    case False
    show ?thesis
    proof (cases evict_if_full)
      case False
      with Suc.prems a \<open>st1 \<noteq> Status_OK\<close> have "s' = s1" by simp
      with t1 show ?thesis by (simp add: evicts_refl)
    next
      case True
      obtain p success ids where r: "RequireSpace ops (eviction_policy s1) sz = (p, success, ids)"
        by (cases "RequireSpace ops (eviction_policy s1) sz") auto
      from Suc.prems a \<open>st1 \<noteq> Status_OK\<close> True r obtain s2 where
        ev: "EvictObjectsInternal ops (s1\<lparr>eviction_policy := p\<rparr>) ids = Inr s2"
        and rest: "if \<not> success then s' = s2
                   else AllocateMemory_loop ops fuel s2 i e1 sz evict_if_full c is_create d
                          = Inr (s', e', st)"
        by (auto split: sum.splits if_splits)
      from EvictObjectsInternal_evicts [OF ev] t1
      have e1: "evicts (object_table s) (object_table s2)" by simp
      show ?thesis
      proof (cases success)
        case True
        with rest Suc.IH have "evicts (object_table s2) (object_table s')" by simp
        with e1 show ?thesis by (rule evicts_trans)
      next
        case False
        with rest e1 show ?thesis by simp
      qed
    qed
  qed
qed

lemma AllocateMemory_evicts:
  assumes "AllocateMemory ops fuel s i e sz evict_if_full c is_create d = Inr (s', e', st)"
  shows "evicts (object_table s) (object_table s')"
proof (cases "d \<noteq> 0")
  case True
  with assms show ?thesis
    by (auto simp: AllocateMemory_def evicts_refl split: if_splits
        dest: Entry_AllocateMemory_table)
next
  case False
  show ?thesis
  proof (cases evict_if_full)
    case False
    with assms \<open>\<not> d \<noteq> 0\<close> show ?thesis
      by (auto simp: AllocateMemory_def split: if_splits dest: AllocateMemory_loop_evicts)
  next
    case True
    obtain p quota_ok ids where
      q: "EnforcePerClientQuota ops (eviction_policy s) c sz is_create = (p, quota_ok, ids)"
      by (cases "EnforcePerClientQuota ops (eviction_policy s) c sz is_create") auto
    show ?thesis
    proof (cases quota_ok)
      case False
      with assms \<open>\<not> d \<noteq> 0\<close> True q have "s' = s\<lparr>eviction_policy := p\<rparr>"
        by (auto simp: AllocateMemory_def split: if_splits)
      then show ?thesis by (simp add: evicts_refl)
    next
      case ok: True
      with assms \<open>\<not> d \<noteq> 0\<close> True q obtain s1 where
        ev: "EvictObjectsInternal ops (s\<lparr>eviction_policy := p\<rparr>) ids = Inr s1"
        and l: "AllocateMemory_loop ops fuel s1 i e sz evict_if_full c is_create d = Inr (s', e', st)"
        by (auto simp: AllocateMemory_def split: if_splits sum.splits)
      from EvictObjectsInternal_evicts [OF ev] have "evicts (object_table s) (object_table s1)"
        by simp
      with AllocateMemory_loop_evicts [OF l] show ?thesis by (blast intro: evicts_trans)
    qed
  qed
qed

lemma CreateObjectInternal_failure:
  assumes "CreateObjectInternal ops fuel s i evict_if_full ds ms d c = Inr (s', st)"
    and "st \<noteq> Status_OK" and "object_table s i = None"
  shows "st = OutOfMemory \<and> evicts (object_table s) (object_table s')"
proof -
  from assms obtain s1 e1 st1 where
    a: "AllocateMemory ops fuel s i new_ObjectTableEntry (int64 (ds + ms)) evict_if_full c True d
          = Inr (s1, e1, st1)"
    by (auto simp: CreateObjectInternal_def Let_def split: if_splits sum.splits)
  with assms have "st = OutOfMemory \<and> s' = s1"
    by (auto simp: CreateObjectInternal_def Let_def split: if_splits)
  with AllocateMemory_evicts [OF a] show ?thesis by simp
qed

text \<open>
  Whenever \<^verbatim>\<open>CreateObject\<close> on an id that is not in the table returns an error, the
  error is \<^verbatim>\<open>OutOfMemory\<close> and the table differs from the one before by evictions only.
\<close>

lemma CreateObject_failure_evicts:
  assumes "CreateObject ops fuel s object_id evict_if_full ds ms d client = Inr (s', st, obj)"
    and "st \<noteq> Status_OK" and "object_table s object_id = None"
  shows "st = OutOfMemory \<and> obj = None \<and> object_table s' object_id = None \<and>
     (\<forall>k. object_table s' k = object_table s k \<or>
        (\<exists>e. object_table s k = Some e \<and> state e = PLASMA_SEALED \<and> ref_count e = 0 \<and>
           object_table s' k = Some ((Reset e)\<lparr>state := PLASMA_EVICTED\<rparr>)))"
proof -
  from assms(1,2) have c: "CreateObjectInternal ops fuel s object_id evict_if_full ds ms d client
       = Inr (s', st)" and o: "obj = None"
    by (auto simp: CreateObject_def split: sum.splits if_splits option.splits)
  from CreateObjectInternal_failure [OF c assms(2,3)]
  have st: "st = OutOfMemory" and ev: "evicts (object_table s) (object_table s')" by simp_all
  from ev have fr: "\<forall>k. object_table s' k = object_table s k \<or>
        (\<exists>e. object_table s k = Some e \<and> state e = PLASMA_SEALED \<and> ref_count e = 0 \<and>
           object_table s' k = Some ((Reset e)\<lparr>state := PLASMA_EVICTED\<rparr>))"
    by (simp add: evicts_def freed_def)
  from fr assms(3) have "object_table s' object_id = None"
    by (auto dest: spec [of _ object_id])
  with st o fr show ?thesis by simp
qed











subsection \<open>Reconstruction in GetObjects\<close>

lemma Entry_AllocateMemory_ok:
  "Entry_AllocateMemory ops s e d sz = Inr (s1, e1, Status_OK) \<Longrightarrow>
     state e1 = PLASMA_CREATED \<and> construct_duration e1 = - 1 \<and> pointer e1 \<noteq> None"
  by (auto simp: Entry_AllocateMemory_def std_time_def split: if_splits prod.splits option.splits)

lemma AddToClientObjectIds_entry:
  "AddToClientObjectIds ops s i e c = (s1, e1) \<Longrightarrow>
     state e1 = state e \<and> construct_duration e1 = construct_duration e \<and> pointer e1 = pointer e"
  by (auto simp: AddToClientObjectIds_def Let_def split: if_splits)

lemma AllocateMemory_loop_ok:
  "AllocateMemory_loop ops fuel s i e sz evict_if_full c is_create d = Inr (s', e', Status_OK) \<Longrightarrow>
     state e' = PLASMA_CREATED \<and> construct_duration e' = - 1 \<and> pointer e' \<noteq> None"
proof (induction fuel arbitrary: s e)
  case 0
  then show ?case by simp
next
  case (Suc fuel)
  from Suc.prems obtain s1 e1 st1 where
    a: "Entry_AllocateMemory ops s e d sz = Inr (s1, e1, st1)"
    by (auto split: sum.splits)
  show ?case
  proof (cases "st1 = Status_OK")
    case True
    with Suc.prems a obtain s2 where
      "AddToClientObjectIds ops
         (s1\<lparr>eviction_policy := ObjectCreated ops (eviction_policy s1) i sz c is_create\<rparr>)
         i e1 c = (s2, e')"
      by (auto split: prod.splits)
    from AddToClientObjectIds_entry [OF this] Entry_AllocateMemory_ok a True
    show ?thesis by metis
  next
    case False
    with Suc.prems a have eif: evict_if_full by (auto split: if_splits)
    obtain p success ids where r: "RequireSpace ops (eviction_policy s1) sz = (p, success, ids)"
      by (cases "RequireSpace ops (eviction_policy s1) sz") auto
    from Suc.prems a False eif r obtain s2 where
      "AllocateMemory_loop ops fuel s2 i e1 sz evict_if_full c is_create d = Inr (s', e', Status_OK)"
      by (auto split: sum.splits if_splits)
    with Suc.IH show ?thesis by blast
  qed
qed

lemma AllocateMemory_ok:
  assumes "AllocateMemory ops fuel s i e sz evict_if_full c is_create d = Inr (s', e', Status_OK)"
  shows "state e' = PLASMA_CREATED \<and> construct_duration e' = - 1 \<and> pointer e' \<noteq> None"
proof -
  from assms have "d = 0"
    by (auto simp: AllocateMemory_def Entry_AllocateMemory_def split: if_splits)
  with assms obtain s0 where
    "AllocateMemory_loop ops fuel s0 i e sz evict_if_full c is_create d = Inr (s', e', Status_OK)"
    by (auto simp: AllocateMemory_def split: if_splits prod.splits sum.splits)
  then show ?thesis by (rule AllocateMemory_loop_ok)
qed

text \<open>
  \<^verbatim>\<open>GetObjects\<close> on one evicted id, for every eviction policy, allocator and external
  store: when the allocation fails the entry is rolled back to \<^verbatim>\<open>PLASMA_EVICTED\<close> and
  the id is not among the reconstructed ids; when the allocation succeeds the entry is
  left as the allocation made it, in state \<^verbatim>\<open>PLASMA_CREATED\<close> with
  \<open>construct_duration = -1\<close>, whatever the external store answers.
\<close>

lemma get_objects_evicted_entry:
  assumes "object_table s i = Some e" and "state e = PLASMA_EVICTED"
    and "GetObjects ops fuel s [i] c = Inr (s', sealed_objects, reconstructed_objects, nonexistent_objects)"
  shows "\<exists>s1 e1 st.
     AllocateMemory ops fuel s i e (ObjectSize e) True c False (device_num e) = Inr (s1, e1, st) \<and>
     (if st = Status_OK
      then object_table s' = (object_table s1)(i \<mapsto> e1) \<and> state e1 = PLASMA_CREATED \<and>
           construct_duration e1 = - 1
      else object_table s' = (object_table s1)(i \<mapsto> e1\<lparr>state := PLASMA_EVICTED\<rparr>) \<and>
           reconstructed_objects = [])"
proof -
  from assms obtain s1 e1 st where
    a: "AllocateMemory ops fuel s i e (ObjectSize e) True c False (device_num e) = Inr (s1, e1, st)"
    by (auto simp: GetObjects_def split: sum.splits)
  show ?thesis
  proof (cases "st = Status_OK")
    case True
    with assms a have "object_table s' = (object_table s1)(i \<mapsto> e1)"
      by (auto simp: GetObjects_def split: option.splits prod.splits if_splits)
    with a True AllocateMemory_ok [of ops fuel s i e "ObjectSize e" True c False "device_num e" s1 e1]
    show ?thesis by simp
  next
    case False
    with assms a have "object_table s' = (object_table s1)(i \<mapsto> e1\<lparr>state := PLASMA_EVICTED\<rparr>)
        \<and> reconstructed_objects = []"
      by (auto simp: GetObjects_def split: option.splits prod.splits if_splits)
    with a False show ?thesis by simp
  qed
qed

text \<open>
  Claim C2, on the code. Object 8 is evicted to the external store; \<^verbatim>\<open>GetObjects\<close>
  allocates memory for it and the fetch succeeds. The id is returned as reconstructed,
  but the entry is left in state \<^verbatim>\<open>PLASMA_CREATED\<close> with \<open>construct_duration = -1\<close>:
  the loop that marks the entries sealed runs over the empty vector \<^verbatim>\<open>entries\<close>.
\<close>

theorem get_objects_reconstructed_left_created:
  "map_option state (object_table spilled 8) = Some PLASMA_EVICTED \<and>
   external_store spilled = Some [8] \<and>
   returns (GetObjects (example_ops 256 True) 5 spilled [8] 2) \<and>
   value_after (GetObjects (example_ops 256 True) 5 spilled [8] 2) = ([], [8], []) \<and>
   object_table (directory_after (GetObjects (example_ops 256 True) 5 spilled [8] 2)) 8 =
     Some \<lparr>pointer = Some 5, data_size = 3, metadata_size = 2, device_num = 0, fd = 3,
           map_size = 256, offset = 5, state = PLASMA_CREATED, ref_count = 1,
           create_time = 102, construct_duration = - 1\<rparr>"
  by (simp add: run_defs spilled_def EvictObjects_def GetObjects_def buffers_of_def
      mark_sealed_def mark_evicted_def numeral_eq_Suc)

text \<open>
  Claim C6, on the code. The same request when the fetch from the external store fails:
  the id is omitted from the reconstructed ids, but the entry is not rolled back to
  \<^verbatim>\<open>PLASMA_EVICTED\<close>. It stays in state \<^verbatim>\<open>PLASMA_CREATED\<close> with its new memory and a
  reference of the requesting client.
\<close>

theorem get_objects_failed_fetch_left_created:
  "map_option state (object_table spilled 8) = Some PLASMA_EVICTED \<and>
   returns (GetObjects (example_ops 256 False) 5 spilled [8] 2) \<and>
   value_after (GetObjects (example_ops 256 False) 5 spilled [8] 2) = ([], [], []) \<and>
   object_table (directory_after (GetObjects (example_ops 256 False) 5 spilled [8] 2)) 8 =
     Some \<lparr>pointer = Some 5, data_size = 3, metadata_size = 2, device_num = 0, fd = 3,
           map_size = 256, offset = 5, state = PLASMA_CREATED, ref_count = 1,
           create_time = 102, construct_duration = - 1\<rparr>"
  by (simp add: run_defs spilled_def EvictObjects_def GetObjects_def buffers_of_def
      mark_sealed_def mark_evicted_def numeral_eq_Suc)

subsection \<open>AbortObject\<close>

text \<open>
  \<^verbatim>\<open>AbortObject\<close> on a sealed entry decides on the caller's set alone: with the id in the
  set the entry is freed and erased and the call returns 1, without it the call returns
  0 and changes nothing.
\<close>

lemma AbortObject_sealed:
  assumes "object_table s object_id = Some entry" and "state entry = PLASMA_SEALED"
  shows "AbortObject ops s object_id client =
     (if object_id \<in> set (object_ids s client) then
        Inr (s\<lparr>allocator :=
                  if device_num entry = 0
                  then Free ops (allocator s) (pointer entry) (ObjectSize entry)
                  else allocator s,
                object_table := (object_table s)(object_id := None),
                object_ids :=
                  (object_ids s)(client := removeAll object_id (object_ids s client))\<rparr>, 1)
      else Inr (s, 0))"
  using assms by (simp add: AbortObject_def EraseObject_def FreeObject_eq Let_def)

text \<open>
  Claim C3, on the code. Client 1 creates and seals object 8 and holds no reference to
  it afterwards; client 2 references it. \<^verbatim>\<open>AbortObject\<close> called by client 2, which did
  not create the object, returns 1 and erases the entry, where the claim has it return 0
  and leave the entry untouched.
\<close>

theorem abort_by_non_creator_erases_entry:
  "returns (CreateAndSealObject (example_ops 256 True) 5 (new_directory None) 8 True ''abc'' ''de'' 0 1) \<and>
   returns (RegisterSealedObjectToClient (example_ops 256 True) (sealed_idle None) 8 2) \<and>
   object_ids sealed_in_use 1 = [] \<and> object_ids sealed_in_use 2 = [8] \<and>
   object_table sealed_in_use 8 =
     Some \<lparr>pointer = Some 0, data_size = 3, metadata_size = 2, device_num = 0, fd = 3,
           map_size = 256, offset = 0, state = PLASMA_SEALED, ref_count = 1,
           create_time = 100, construct_duration = 1\<rparr> \<and>
   returns (AbortObject (example_ops 256 True) sealed_in_use 8 2) \<and>
   value_after (AbortObject (example_ops 256 True) sealed_in_use 8 2) = 1 \<and>
   object_table (directory_after (AbortObject (example_ops 256 True) sealed_in_use 8 2)) 8 = None \<and>
   object_ids (directory_after (AbortObject (example_ops 256 True) sealed_in_use 8 2)) 2 = []"
  by (simp add: run_defs AbortObject_def numeral_eq_Suc)

subsection \<open>DeleteObject\<close>

text \<open>
  Claim C4, amended. \<^verbatim>\<open>DeleteObject\<close> has four outcomes. An id that is not in the table
  gives \<^verbatim>\<open>ObjectNonexistent\<close> and changes nothing, so that the call can be repeated with
  the same answer. An entry that is not sealed gives \<^verbatim>\<open>ObjectNotSealed\<close>, and a sealed
  entry whose reference count is not 0 gives \<^verbatim>\<open>ObjectInUse\<close>; both add the id to the
  deletion cache and change nothing else. A sealed entry with reference count 0 gives
  \<^verbatim>\<open>OK\<close>: the object is removed from the eviction policy, its memory is freed, the
  entry is erased and one batch of one notification is emitted, which carries the id
  and \<open>is_deletion = true\<close>.
\<close>

theorem delete_object_cases:
  "(object_table s object_id = None \<longrightarrow>
      DeleteObject ops s object_id = (s, ObjectNonexistent) \<and>
      DeleteObject ops (fst (DeleteObject ops s object_id)) object_id = (s, ObjectNonexistent)) \<and>
   (\<forall>entry. object_table s object_id = Some entry \<and> state entry \<noteq> PLASMA_SEALED \<longrightarrow>
      DeleteObject ops s object_id =
        (s\<lparr>deletion_cache := insert object_id (deletion_cache s)\<rparr>, ObjectNotSealed)) \<and>
   (\<forall>entry. object_table s object_id = Some entry \<and> state entry = PLASMA_SEALED \<and>
        ref_count entry \<noteq> 0 \<longrightarrow>
      DeleteObject ops s object_id =
        (s\<lparr>deletion_cache := insert object_id (deletion_cache s)\<rparr>, ObjectInUse)) \<and>
   (\<forall>entry. object_table s object_id = Some entry \<and> state entry = PLASMA_SEALED \<and>
        ref_count entry = 0 \<longrightarrow>
      DeleteObject ops s object_id =
        (s\<lparr>eviction_policy := RemoveObject ops (eviction_policy s) object_id,
           allocator :=
             if device_num entry = 0
             then Free ops (allocator s) (pointer entry) (ObjectSize entry)
             else allocator s,
           object_table := (object_table s)(object_id := None),
           notified := notified s @
             [[\<lparr>info_object_id = object_id, info_data_size = 0, info_metadata_size = 0,
                is_deletion = True\<rparr>]]\<rparr>,
         PlasmaError_OK))"
  by (simp add: DeleteObject_def EraseObject_def notifications_callback_def FreeObject_eq
      deletion_notification_def)

theorem delete_object_cases_witness:
  "DeleteObject (example_ops 256 True) (new_directory None) 8 = (new_directory None, ObjectNonexistent) \<and>
   DeleteObject (example_ops 256 True) created_unsealed 8 =
     (created_unsealed\<lparr>deletion_cache := {8}\<rparr>, ObjectNotSealed) \<and>
   DeleteObject (example_ops 256 True) sealed_in_use 8 =
     (sealed_in_use\<lparr>deletion_cache := {8}\<rparr>, ObjectInUse) \<and>
   DeleteObject (example_ops 256 True) (sealed_idle None) 8 =
     (sealed_idle None\<lparr>eviction_policy := [], allocator := (0, 5),
        object_table := (object_table (sealed_idle None))(8 := None),
        notified := notified (sealed_idle None) @
          [[\<lparr>info_object_id = 8, info_data_size = 0, info_metadata_size = 0,
             is_deletion = True\<rparr>]]\<rparr>,
      PlasmaError_OK)"
proof -
  have a: "object_table (new_directory None :: ((ObjectID \<times> int) list, int \<times> nat, ObjectID list) ObjectDirectory) 8 = None"
    by (simp add: new_directory_def)
  have b: "object_table created_unsealed 8 =
     Some \<lparr>pointer = Some 0, data_size = 3, metadata_size = 2, device_num = 0, fd = 3,
           map_size = 256, offset = 0, state = PLASMA_CREATED, ref_count = 1,
           create_time = 100, construct_duration = - 1\<rparr>"
    "deletion_cache created_unsealed = {}"
    by (simp_all add: run_defs created_unsealed_def numeral_eq_Suc)
  have c: "object_table sealed_in_use 8 =
     Some \<lparr>pointer = Some 0, data_size = 3, metadata_size = 2, device_num = 0, fd = 3,
           map_size = 256, offset = 0, state = PLASMA_SEALED, ref_count = 1,
           create_time = 100, construct_duration = 1\<rparr>"
    "deletion_cache sealed_in_use = {}"
    by (simp_all add: run_defs numeral_eq_Suc)
  have d: "object_table (sealed_idle None) 8 =
     Some \<lparr>pointer = Some 0, data_size = 3, metadata_size = 2, device_num = 0, fd = 3,
           map_size = 256, offset = 0, state = PLASMA_SEALED, ref_count = 0,
           create_time = 100, construct_duration = 1\<rparr>"
    "eviction_policy (sealed_idle None) = [(8, 5)]" "allocator (sealed_idle None) = (5, 5)"
    by (simp_all add: run_defs numeral_eq_Suc)
  show ?thesis
    using delete_object_cases [of "new_directory None" 8 "example_ops 256 True"]
      delete_object_cases [of created_unsealed 8 "example_ops 256 True"]
      delete_object_cases [of sealed_in_use 8 "example_ops 256 True"]
      delete_object_cases [of "sealed_idle None" 8 "example_ops 256 True"]
      a b c d
    by (simp add: example_ops_def example_Free_def lru_without_def ObjectSize_def int64_def)
qed

text \<open>
  Against claim C4 as stated: the entry of object 8 is sealed and its reference count is
  -1, not greater than 0, and \<^verbatim>\<open>DeleteObject\<close> answers \<^verbatim>\<open>ObjectInUse\<close> and defers the
  deletion.
\<close>

theorem delete_object_negative_count_counterexample:
  "object_table recreated 8 =
     Some \<lparr>pointer = Some 5, data_size = 3, metadata_size = 2, device_num = 0, fd = 3,
           map_size = 256, offset = 5, state = PLASMA_SEALED, ref_count = - 1,
           create_time = 102, construct_duration = 1\<rparr> \<and>
   DeleteObject (example_ops 256 True) recreated 8 =
     (recreated\<lparr>deletion_cache := {8}\<rparr>, ObjectInUse)"
  by (simp add: run_defs shared_def aborted_def recreated_def AbortObject_def DeleteObject_def
      numeral_eq_Suc)

subsection \<open>Releasing the last reference of an object to delete\<close>

text \<open>
  \<^verbatim>\<open>RemoveFromClientObjectIds\<close> on the last reference of a sealed object whose id is in
  the deletion cache, for every directory: the id leaves the client's set and the
  deletion cache, the eviction policy is not told of the end of the access, and the
  object goes through \<^verbatim>\<open>EvictObjectsInternal\<close>. Without an external store its memory
  is freed and one deletion notification is emitted; with one the object is put to the
  store and freed, and nothing is emitted.
\<close>

lemma RemoveFromClientObjectIds_pending_delete:
  assumes "object_table s object_id = Some entry" and "state entry = PLASMA_SEALED"
    and "ref_count entry = 1"
    and "object_id \<in> set (object_ids s client)" and "object_id \<in> deletion_cache s"
  shows "RemoveFromClientObjectIds ops s object_id client =
     (case external_store s of
        None \<Rightarrow>
          Inr (s\<lparr>object_ids :=
                    (object_ids s)(client := removeAll object_id (object_ids s client)),
                  deletion_cache := deletion_cache s - {object_id},
                  allocator :=
                    if device_num entry = 0
                    then Free ops (allocator s) (pointer entry) (ObjectSize entry)
                    else allocator s,
                  object_table :=
                    (object_table s)(object_id \<mapsto>
                       (Reset (entry\<lparr>ref_count := 0\<rparr>))\<lparr>state := PLASMA_EVICTED\<rparr>),
                  notified := notified s @ [[deletion_notification object_id]]\<rparr>, 1)
      | Some x \<Rightarrow>
          (case Put ops x [object_id] [(pointer entry, ObjectSize entry)] of
             (x', ok) \<Rightarrow>
               if ok then
                 Inr (s\<lparr>object_ids :=
                           (object_ids s)(client := removeAll object_id (object_ids s client)),
                         deletion_cache := deletion_cache s - {object_id},
                         external_store := Some x',
                         allocator :=
                           if device_num entry = 0
                           then Free ops (allocator s) (pointer entry) (ObjectSize entry)
                           else allocator s,
                         object_table :=
                           (object_table s)(object_id \<mapsto>
                              (Reset (entry\<lparr>ref_count := 0\<rparr>))\<lparr>state := PLASMA_EVICTED\<rparr>)\<rparr>, 1)
               else Inl RAY_CHECK_failed))"
  using assms
  by (simp add: RemoveFromClientObjectIds_def EvictObjectsInternal_def FreeObject_eq freed_def
      Reset_def ObjectSize_def GetArrowBuffer_def notifications_callback_def free_entry_def
      Let_def split: option.splits prod.splits)

text \<open>
  Claim C5, on the code. With an external store, the deletion of object 8 is requested
  while client 2 uses it and is deferred. When client 2 releases the object, the id leaves
  the deletion cache, but no deletion notification is emitted and the object is not
  deleted: it is put to the external store, its entry stays in the table, and a later
  \<^verbatim>\<open>GetObjects\<close> returns the id as reconstructed.
\<close>

theorem deferred_delete_with_store_spills:
  "snd (DeleteObject (example_ops 256 True) in_use_with_store 8) = ObjectInUse \<and>
   8 \<in> deletion_cache (delete_pending (Some [])) \<and>
   object_ids (delete_pending (Some [])) 2 = [8] \<and>
   object_table (delete_pending (Some [])) 8 =
     Some \<lparr>pointer = Some 0, data_size = 3, metadata_size = 2, device_num = 0, fd = 3,
           map_size = 256, offset = 0, state = PLASMA_SEALED, ref_count = 1,
           create_time = 100, construct_duration = 1\<rparr> \<and>
   returns (RemoveFromClientObjectIds (example_ops 256 True) (delete_pending (Some [])) 8 2) \<and>
   value_after (RemoveFromClientObjectIds (example_ops 256 True) (delete_pending (Some [])) 8 2) = 1 \<and>
   deletion_cache
     (directory_after
        (RemoveFromClientObjectIds (example_ops 256 True) (delete_pending (Some [])) 8 2))
     = {} \<and>
   notified
     (directory_after
        (RemoveFromClientObjectIds (example_ops 256 True) (delete_pending (Some [])) 8 2))
     = notified (delete_pending (Some [])) \<and>
   notified (delete_pending (Some [])) =
     [[\<lparr>info_object_id = 8, info_data_size = 3, info_metadata_size = 2, is_deletion = False\<rparr>]] \<and>
   external_store
     (directory_after
        (RemoveFromClientObjectIds (example_ops 256 True) (delete_pending (Some [])) 8 2))
     = Some [8] \<and>
   object_table
     (directory_after
        (RemoveFromClientObjectIds (example_ops 256 True) (delete_pending (Some [])) 8 2)) 8 =
     Some \<lparr>pointer = None, data_size = 3, metadata_size = 2, device_num = 0, fd = - 1,
           map_size = 0, offset = 0, state = PLASMA_EVICTED, ref_count = 0,
           create_time = 100, construct_duration = 1\<rparr> \<and>
   value_after
     (GetObjects (example_ops 256 True) 5
        (directory_after
           (RemoveFromClientObjectIds (example_ops 256 True) (delete_pending (Some [])) 8 2))
        [8] 3)
     = ([], [8], [])"
  by (simp add: run_defs in_use_with_store_def delete_pending_def DeleteObject_def
      GetObjects_def buffers_of_def mark_sealed_def mark_evicted_def numeral_eq_Suc)

subsection \<open>Reference counts\<close>

text \<open>
  The bookkeeping of the two helpers, for every directory: \<^verbatim>\<open>AddToClientObjectIds\<close>
  counts a reference unless the client's set holds the id already, and
  \<^verbatim>\<open>RemoveFromClientObjectIds\<close> takes one from the count of the entry exactly when the
  client's set holds the id, whatever the count is; no other count changes.
\<close>

lemma evicts_ref_count:
  "evicts t t' \<Longrightarrow> map_option ref_count (t' k) = map_option ref_count (t k)"
  unfolding evicts_def by (metis freed_simps(3) option.simps(9))

lemma AddToClientObjectIds_ref_count:
  "AddToClientObjectIds ops s i e c = (s1, e1) \<Longrightarrow>
     ref_count e1 = (if i \<in> set (object_ids s c) then ref_count e else ref_count e + 1)"
  by (auto simp: AddToClientObjectIds_def Let_def split: if_splits)

lemma RemoveFromClientObjectIds_ref_count:
  assumes "RemoveFromClientObjectIds ops s i c = Inr (s', r)"
    and "object_table s i = Some e"
  shows "r = (if i \<in> set (object_ids s c) then 1 else 0) \<and>
     map_option ref_count (object_table s' i) = Some (ref_count e - r) \<and>
     (\<forall>k. k \<noteq> i \<longrightarrow>
        map_option ref_count (object_table s' k) = map_option ref_count (object_table s k))"
proof (cases "i \<in> set (object_ids s c)")
  case False
  with assms show ?thesis by (simp add: RemoveFromClientObjectIds_def)
next
  case True
  let ?t1 = "(object_table s)(i \<mapsto> e\<lparr>ref_count := ref_count e - 1\<rparr>)"
  have "r = 1 \<and> evicts ?t1 (object_table s')"
  proof (cases "ref_count e - 1 = 0 \<and> i \<in> deletion_cache s")
    case False
    with assms True have "r = 1 \<and> object_table s' = ?t1"
      by (auto simp: RemoveFromClientObjectIds_def Let_def split: if_splits)
    then show ?thesis by (simp add: evicts_refl)
  next
    case c: True
    let ?s1 = "s\<lparr>object_ids := (object_ids s)(c := removeAll i (object_ids s c)),
                 object_table := ?t1, deletion_cache := deletion_cache s - {i}\<rparr>"
    from assms True c have "EvictObjectsInternal ops ?s1 [i] = Inr s' \<and> r = 1"
      by (auto simp: RemoveFromClientObjectIds_def Let_def split: if_splits sum.splits)
    with EvictObjectsInternal_evicts [of ops ?s1 "[i]" s'] show ?thesis by simp
  qed
  then have r: "r = 1" and ev: "evicts ?t1 (object_table s')" by blast+
  have m: "map_option ref_count (object_table s' k) = map_option ref_count (?t1 k)" for k
    using ev by (rule evicts_ref_count)
  from m [of i] have "map_option ref_count (object_table s' i) = Some (ref_count e - 1)"
    by simp
  moreover have "map_option ref_count (object_table s' k) = map_option ref_count (object_table s k)"
    if "k \<noteq> i" for k
    using m [of k] that by simp
  ultimately show ?thesis using r True by simp
qed

text \<open>
  Claim C10. For an id of the table and a client whose set already holds the id,
  \<^verbatim>\<open>RegisterSealedObjectToClient\<close> returns the descriptor of the entry and leaves the
  whole directory as it was: the reference count, the client's set and the eviction
  policy are unchanged.
\<close>

theorem register_again_changes_nothing:
  assumes "object_table s object_id = Some entry"
    and "object_id \<in> set (object_ids s client)"
  shows "RegisterSealedObjectToClient ops s object_id client = Inr (s, PlasmaObject_init entry)"
proof -
  from assms(1) have "(object_table s)(object_id \<mapsto> entry) = object_table s"
    by (rule map_upd_triv)
  with assms show ?thesis
    by (simp add: RegisterSealedObjectToClient_def AddToClientObjectIds_def)
qed

theorem register_again_changes_nothing_witness:
  "object_table sealed_in_use 8 =
     Some \<lparr>pointer = Some 0, data_size = 3, metadata_size = 2, device_num = 0, fd = 3,
           map_size = 256, offset = 0, state = PLASMA_SEALED, ref_count = 1,
           create_time = 100, construct_duration = 1\<rparr> \<and>
   8 \<in> set (object_ids sealed_in_use 2) \<and>
   RegisterSealedObjectToClient (example_ops 256 True) sealed_in_use 8 2 =
     Inr (sealed_in_use,
          \<lparr>store_fd = 3, data_offset = 0, metadata_offset = 3, object_data_size = 3,
           object_metadata_size = 2, object_device_num = 0, object_map_size = 256,
           initialized = True\<rparr>)"
proof -
  have e: "object_table sealed_in_use 8 =
     Some \<lparr>pointer = Some 0, data_size = 3, metadata_size = 2, device_num = 0, fd = 3,
           map_size = 256, offset = 0, state = PLASMA_SEALED, ref_count = 1,
           create_time = 100, construct_duration = 1\<rparr>"
    by (simp add: run_defs numeral_eq_Suc)
  have m: "8 \<in> set (object_ids sealed_in_use 2)"
    by (simp add: run_defs numeral_eq_Suc)
  from register_again_changes_nothing [OF e m, of "example_ops 256 True"] e m
  show ?thesis by (simp add: PlasmaObject_init_def)
qed

text \<open>
  Claim C9, on the code. Five public operations from the empty directory leave an entry
  with reference count -1: client 1 creates and seals object 8, clients 2 and 1 register
  as its users, client 1 aborts it (the entry is erased while client 2 still holds the
  id), and client 2 creates and seals object 8 again. The creation finds the id in the
  client's set and does not count the reference; the release that ends
  \<^verbatim>\<open>CreateAndSealObject\<close> removes the id and decrements the count from 0.
\<close>

theorem ref_count_negative_after_abort_and_create:
  "returns (CreateAndSealObject (example_ops 256 True) 5 (new_directory None) 8 True ''abc'' ''de'' 0 1) \<and>
   returns (RegisterSealedObjectToClient (example_ops 256 True) (sealed_idle None) 8 2) \<and>
   returns (RegisterSealedObjectToClient (example_ops 256 True) sealed_in_use 8 1) \<and>
   map_option ref_count (object_table shared 8) = Some 2 \<and>
   returns (AbortObject (example_ops 256 True) shared 8 1) \<and>
   value_after (AbortObject (example_ops 256 True) shared 8 1) = 1 \<and>
   object_table aborted 8 = None \<and> object_ids aborted 2 = [8] \<and>
   returns (CreateAndSealObject (example_ops 256 True) 5 aborted 8 True ''abc'' ''de'' 0 2) \<and>
   fst (value_after (CreateAndSealObject (example_ops 256 True) 5 aborted 8 True ''abc'' ''de'' 0 2))
     = Status_OK \<and>
   map_option ref_count
     (object_table
        (directory_after
           (CreateAndSealObject (example_ops 256 True) 5 aborted 8 True ''abc'' ''de'' 0 2)) 8)
     = Some (- 1)"
  by (simp add: run_defs shared_def aborted_def AbortObject_def numeral_eq_Suc)

subsection \<open>SealObjectsInternal\<close>

lemma seal_loop_general:
  assumes "distinct ids"
    and "\<forall>i \<in> set ids. \<exists>e. object_table s i = Some e \<and> state e = PLASMA_CREATED"
  shows "\<exists>t. seal_loop s ids infos =
           Inr (s\<lparr>object_table := t, time_calls := time_calls s + length ids\<rparr>,
                infos @ map (seal_notification (object_table s)) ids) \<and>
         (\<forall>j < length ids. t (ids ! j) =
            Some (sealed_entry (the (object_table s (ids ! j)))
                    (time_source s (time_calls s + j)))) \<and>
         (\<forall>k. k \<notin> set ids \<longrightarrow> t k = object_table s k)"
  using assms
proof (induction ids arbitrary: s infos)
  case Nil
  have "s = s\<lparr>object_table := object_table s\<rparr>" by simp
  then show ?case by (auto intro: exI [of _ "object_table s"])
next
  case (Cons i rest)
  from Cons.prems obtain e where e: "object_table s i = Some e" "state e = PLASMA_CREATED"
    by auto
  let ?e' = "sealed_entry e (time_source s (time_calls s))"
  let ?s1 = "s\<lparr>time_calls := Suc (time_calls s),
               object_table := (object_table s)(i \<mapsto> ?e')\<rparr>"
  let ?n = "seal_notification (object_table s) i"
  have step: "seal_loop s (i # rest) infos = seal_loop ?s1 rest (infos @ [?n])"
    using e by (simp add: std_time_def sealed_entry_def seal_notification_def Let_def)
  from Cons.prems have d: "distinct rest" and ni: "i \<notin> set rest" by simp_all
  have same: "object_table ?s1 k = object_table s k" if "k \<in> set rest" for k
    using that ni by auto
  have pre: "\<forall>k \<in> set rest. \<exists>e. object_table ?s1 k = Some e \<and> state e = PLASMA_CREATED"
    using Cons.prems(2) same by simp
  from Cons.IH [OF d pre, of "infos @ [?n]"] obtain t where
    r: "seal_loop ?s1 rest (infos @ [?n]) =
          Inr (?s1\<lparr>object_table := t, time_calls := time_calls ?s1 + length rest\<rparr>,
               (infos @ [?n]) @ map (seal_notification (object_table ?s1)) rest)"
    and tj: "\<forall>j < length rest. t (rest ! j) =
            Some (sealed_entry (the (object_table ?s1 (rest ! j)))
                    (time_source ?s1 (time_calls ?s1 + j)))"
    and tk: "\<forall>k. k \<notin> set rest \<longrightarrow> t k = object_table ?s1 k"
    by blast
  have m: "map (seal_notification (object_table ?s1)) rest
             = map (seal_notification (object_table s)) rest"
    using ni by (auto simp: seal_notification_def)
  have res: "seal_loop s (i # rest) infos =
           Inr (s\<lparr>object_table := t, time_calls := time_calls s + length (i # rest)\<rparr>,
                infos @ map (seal_notification (object_table s)) (i # rest))"
    unfolding step r m by simp
  have j: "t ((i # rest) ! j) =
            Some (sealed_entry (the (object_table s ((i # rest) ! j)))
                    (time_source s (time_calls s + j)))" if "j < length (i # rest)" for j
  proof (cases j)
    case 0
    with tk ni e show ?thesis by simp
  next
    case (Suc j')
    with that have l: "j' < length rest" by simp
    then have "rest ! j' \<in> set rest" by simp
    with ni have "rest ! j' \<noteq> i" by auto
    with tj l Suc show ?thesis by simp
  qed
  have k: "t k = object_table s k" if "k \<notin> set (i # rest)" for k
    using that tk by simp
  from res j k show ?case by blast
qed

text \<open>
  Claim C8, amended. \<^verbatim>\<open>SealObjectsInternal\<close> on ids that are all in the table in state
  \<^verbatim>\<open>PLASMA_CREATED\<close>, each id occurring once in the list: the loop sets each entry to \<^verbatim>\<open>PLASMA_SEALED\<close>
  and stamps its \<open>construct_duration\<close> with the time read for it minus its
  \<open>create_time\<close>, changes no other entry, and collects one notification per id with the
  entry's \<open>data_size\<close> and \<open>metadata_size\<close> and \<open>is_deletion = false\<close>. Nothing is
  emitted during the loop; the notifications are emitted as one batch after it.
\<close>

theorem seal_objects_internal_spec:
  assumes "distinct ids"
    and "\<forall>i \<in> set ids. \<exists>e. object_table s i = Some e \<and> state e = PLASMA_CREATED"
  shows "\<exists>t. seal_loop s ids [] =
           Inr (s\<lparr>object_table := t, time_calls := time_calls s + length ids\<rparr>,
                map (\<lambda>i. \<lparr>info_object_id = i,
                           info_data_size = data_size (the (object_table s i)),
                           info_metadata_size = metadata_size (the (object_table s i)),
                           is_deletion = False\<rparr>) ids) \<and>
         SealObjectsInternal s ids =
           Inr (s\<lparr>object_table := t, time_calls := time_calls s + length ids,
                  notified := notified s @
                    [map (\<lambda>i. \<lparr>info_object_id = i,
                                info_data_size = data_size (the (object_table s i)),
                                info_metadata_size = metadata_size (the (object_table s i)),
                                is_deletion = False\<rparr>) ids]\<rparr>) \<and>
         (\<forall>j < length ids. t (ids ! j) =
            Some ((the (object_table s (ids ! j)))
                    \<lparr>state := PLASMA_SEALED,
                     construct_duration :=
                       time_source s (time_calls s + j)
                         - create_time (the (object_table s (ids ! j)))\<rparr>)) \<and>
         (\<forall>k. k \<notin> set ids \<longrightarrow> t k = object_table s k)"
proof -
  from seal_loop_general [OF assms, of "[]"] obtain t where
    r: "seal_loop s ids [] =
           Inr (s\<lparr>object_table := t, time_calls := time_calls s + length ids\<rparr>,
                map (seal_notification (object_table s)) ids)"
    and tj: "\<forall>j < length ids. t (ids ! j) =
            Some (sealed_entry (the (object_table s (ids ! j)))
                    (time_source s (time_calls s + j)))"
    and tk: "\<forall>k. k \<notin> set ids \<longrightarrow> t k = object_table s k"
    by auto
  have n: "seal_notification (object_table s) =
     (\<lambda>i. \<lparr>info_object_id = i, info_data_size = data_size (the (object_table s i)),
           info_metadata_size = metadata_size (the (object_table s i)), is_deletion = False\<rparr>)"
    by (rule ext) (simp add: seal_notification_def)
  from r have "SealObjectsInternal s ids =
           Inr (s\<lparr>object_table := t, time_calls := time_calls s + length ids,
                  notified := notified s @ [map (seal_notification (object_table s)) ids]\<rparr>)"
    by (simp add: SealObjectsInternal_def notifications_callback_def)
  with r tj tk show ?thesis
    unfolding n sealed_entry_def by blast
qed

theorem seal_objects_internal_spec_witness:
  "distinct [8, 9 :: ObjectID] \<and>
   map_option state (object_table two_created 8) = Some PLASMA_CREATED \<and>
   map_option state (object_table two_created 9) = Some PLASMA_CREATED \<and>
   map_option create_time (object_table two_created 8) = Some 100 \<and>
   map_option create_time (object_table two_created 9) = Some 101 \<and>
   time_calls two_created = 2 \<and>
   returns (SealObjectsInternal two_created [8, 9]) \<and>
   map_option state (object_table (projr (SealObjectsInternal two_created [8, 9])) 8)
     = Some PLASMA_SEALED \<and>
   map_option construct_duration (object_table (projr (SealObjectsInternal two_created [8, 9])) 8)
     = Some 2 \<and>
   map_option state (object_table (projr (SealObjectsInternal two_created [8, 9])) 9)
     = Some PLASMA_SEALED \<and>
   map_option construct_duration (object_table (projr (SealObjectsInternal two_created [8, 9])) 9)
     = Some 2 \<and>
   notified (projr (SealObjectsInternal two_created [8, 9])) =
     [[\<lparr>info_object_id = 8, info_data_size = 3, info_metadata_size = 2, is_deletion = False\<rparr>,
       \<lparr>info_object_id = 9, info_data_size = 4, info_metadata_size = 1, is_deletion = False\<rparr>]]"
proof -
  have e8: "object_table two_created 8 =
     Some \<lparr>pointer = Some 0, data_size = 3, metadata_size = 2, device_num = 0, fd = 3,
           map_size = 256, offset = 0, state = PLASMA_CREATED, ref_count = 1,
           create_time = 100, construct_duration = - 1\<rparr>"
    by (simp add: run_defs two_created_def numeral_eq_Suc)
  have e9: "object_table two_created 9 =
     Some \<lparr>pointer = Some 5, data_size = 4, metadata_size = 1, device_num = 0, fd = 3,
           map_size = 256, offset = 5, state = PLASMA_CREATED, ref_count = 1,
           create_time = 101, construct_duration = - 1\<rparr>"
    by (simp add: run_defs two_created_def numeral_eq_Suc)
  have c: "time_calls two_created = 2" "notified two_created = []"
    "time_source two_created = (\<lambda>n. 100 + int n)"
    by (simp_all add: run_defs two_created_def numeral_eq_Suc)
  have d: "distinct [8, 9 :: ObjectID]" by simp
  have p: "\<forall>i \<in> set [8, 9]. \<exists>e. object_table two_created i = Some e \<and> state e = PLASMA_CREATED"
    using e8 e9 by simp
  from seal_objects_internal_spec [OF d p] obtain t where
    r: "SealObjectsInternal two_created [8, 9] =
           Inr (two_created\<lparr>object_table := t,
                  time_calls := time_calls two_created + length [8, 9 :: ObjectID],
                  notified := notified two_created @
                    [map (\<lambda>i. \<lparr>info_object_id = i,
                                info_data_size = data_size (the (object_table two_created i)),
                                info_metadata_size = metadata_size (the (object_table two_created i)),
                                is_deletion = False\<rparr>) [8, 9]]\<rparr>)"
    and tj: "\<forall>j < length [8, 9 :: ObjectID]. t ([8, 9] ! j) =
            Some ((the (object_table two_created ([8, 9] ! j)))
                    \<lparr>state := PLASMA_SEALED,
                     construct_duration :=
                       time_source two_created (time_calls two_created + j)
                         - create_time (the (object_table two_created ([8, 9] ! j)))\<rparr>)"
    by blast
  from spec [OF tj, of 0] have "t ([8, 9] ! 0) =
            Some ((the (object_table two_created ([8, 9] ! 0)))
                    \<lparr>state := PLASMA_SEALED,
                     construct_duration :=
                       time_source two_created (time_calls two_created + 0)
                         - create_time (the (object_table two_created ([8, 9] ! 0)))\<rparr>)"
    by simp
  then have t8: "map_option state (t 8) = Some PLASMA_SEALED"
    "map_option construct_duration (t 8) = Some 2"
    using e8 c by simp_all
  from spec [OF tj, of 1] have "t ([8, 9] ! 1) =
            Some ((the (object_table two_created ([8, 9] ! 1)))
                    \<lparr>state := PLASMA_SEALED,
                     construct_duration :=
                       time_source two_created (time_calls two_created + 1)
                         - create_time (the (object_table two_created ([8, 9] ! 1)))\<rparr>)"
    by simp
  then have t9: "map_option state (t 9) = Some PLASMA_SEALED"
    "map_option construct_duration (t 9) = Some 2"
    using e9 c by simp_all
  from r t8 t9 e8 e9 c d show ?thesis
    by (simp add: returns_def)
qed

text \<open>
  Against claim C8 as stated: object 8 is in the table in state \<^verbatim>\<open>PLASMA_CREATED\<close>, and
  on the list that names it twice the check of the state fails at the second occurrence,
  after the first has sealed the entry.
\<close>

theorem seal_repeated_id_counterexample:
  "object_table two_created 8 =
     Some \<lparr>pointer = Some 0, data_size = 3, metadata_size = 2, device_num = 0, fd = 3,
           map_size = 256, offset = 0, state = PLASMA_CREATED, ref_count = 1,
           create_time = 100, construct_duration = - 1\<rparr> \<and>
   SealObjectsInternal two_created [8, 8] = Inl RAY_CHECK_failed"
  by (simp add: run_defs two_created_def numeral_eq_Suc)

end
